theory Spec2Isabelle
  imports Main "HOL-Library.Word"
begin

unbundle bit_operations_syntax

section \<open>The configuration tree\<close>

text \<open>
  \<^verbatim>\<open>docker-info.c\<close> reads a configuration that json-c has already parsed. The tree is
  a datatype; json-c represents the JSON value \<^verbatim>\<open>null\<close> by the C pointer \<^verbatim>\<open>NULL\<close>,
  here \<open>JNull\<close>. Floating-point numbers are left out of the tree.
\<close>

datatype json =
    JNull
  | JBool bool
  | JInt int
  | JString string
  | JArray "json list"
  | JObject "(string \<times> json) list"

text \<open>
  \<^verbatim>\<open>json_object_object_get_ex(obj, key, &value)\<close>: \<open>Some v\<close> is the return value
  TRUE with \<^verbatim>\<open>*value = v\<close>; \<open>None\<close> is FALSE, which is also the answer for a node
  that is not an object.
\<close>

fun json_object_object_get_ex :: "json \<Rightarrow> string \<Rightarrow> json option" where
  "json_object_object_get_ex (JObject kvs) key = map_of kvs key"
| "json_object_object_get_ex _ key = None"

text \<open>
  \<^verbatim>\<open>json_object_array_get_idx(arr, idx)\<close> on an array: \<open>None\<close> is the C pointer
  \<^verbatim>\<open>NULL\<close>, returned for an index outside the array and for an element that is
  \<^verbatim>\<open>null\<close>. The index is a C \<^verbatim>\<open>int\<close> and may be negative. On a node that is not
  an array json-c gives no defined answer (\<open>json_is_array\<close> separates the case).
\<close>

fun json_is_array :: "json \<Rightarrow> bool" where
  "json_is_array (JArray xs) = True"
| "json_is_array _ = False"

fun json_object_array_get_idx :: "json \<Rightarrow> int \<Rightarrow> json option" where
  "json_object_array_get_idx (JArray xs) idx =
     (if 0 \<le> idx \<and> nat idx < length xs
      then (case xs ! nat idx of JNull \<Rightarrow> None | v \<Rightarrow> Some v)
      else None)"
| "json_object_array_get_idx _ idx = None"

section \<open>The environment of the driver\<close>

text \<open>
  What \<^verbatim>\<open>docker-info.c\<close> calls but does not define is a parameter of the model:
  the two json-c coercions, \<^verbatim>\<open>generic_strip_string\<close>, the scheduler table behind
  \<^verbatim>\<open>docker_valid_scheduler_test\<close> (negative for an unsupported name, otherwise the
  scheduler's index) and \<^verbatim>\<open>docker_has_weight_scheduler\<close>, the file system as
  \<^verbatim>\<open>lstat\<close> sees it during one call (\<open>lstat_ok p\<close>: \<^verbatim>\<open>lstat\<close> returns 0 on \<open>p\<close>,
  otherwise it returns -1), the process id, whether each of the two \<^verbatim>\<open>malloc\<close> calls
  succeeds, and the sizes of the six character arrays of \<^verbatim>\<open>struct docker_info\<close>,
  which the header \<^verbatim>\<open>docker-driver.h\<close> fixes.

  A C string is modelled by the list of its characters before the terminating NUL.
\<close>

record env =
  json_object_get_int :: "json \<Rightarrow> int"
  json_object_get_string :: "json \<Rightarrow> string"
  generic_strip_string :: "string \<Rightarrow> char \<Rightarrow> string"
  docker_valid_scheduler_test :: "string \<Rightarrow> int"
  docker_has_weight_scheduler :: "int \<Rightarrow> bool"
  lstat_ok :: "string \<Rightarrow> bool"
  getpid :: "32 word"
  malloc_info :: bool
  malloc_buffer :: bool
  sizeof_prefix_cgroup_name :: nat
  sizeof_scheduler :: nat
  sizeof_trace_replay_path :: nat
  sizeof_device :: nat
  sizeof_trace_data_path :: nat
  sizeof_cgroup_id :: nat

section \<open>The descriptor\<close>

text \<open>
  \<^verbatim>\<open>struct docker_info\<close>. The members written through \<^verbatim>\<open>unsigned int *\<close> are
  32-bit words; so are the signed \<^verbatim>\<open>mqid\<close>, \<^verbatim>\<open>semid\<close>, \<^verbatim>\<open>shmid\<close> and \<^verbatim>\<open>ppid\<close>
  (\<open>sint\<close> reads them, \<open>- 1\<close> is the word of all ones).
  \<open>next_ptr\<close> is the member \<^verbatim>\<open>next\<close>: \<open>None\<close> is \<^verbatim>\<open>NULL\<close>, \<open>Some a\<close> the address
  of another descriptor.
\<close>

record docker_info =
  time :: "32 word"
  q_depth :: "32 word"
  nr_thread :: "32 word"
  weight :: "32 word"
  trace_repeat :: "32 word"
  wss :: "32 word"
  utilization :: "32 word"
  iosize :: "32 word"
  prefix_cgroup_name :: string
  scheduler :: string
  trace_replay_path :: string
  device :: string
  trace_data_path :: string
  cgroup_id :: string
  ppid :: "32 word"
  mqid :: "32 word"
  semid :: "32 word"
  shmid :: "32 word"
  next_ptr :: "nat option"

text \<open>\<^verbatim>\<open>memset(info, 0, sizeof(struct docker_info))\<close>.\<close>

definition memset_zero :: docker_info where
  "memset_zero =
     \<lparr> time = 0, q_depth = 0, nr_thread = 0, weight = 0, trace_repeat = 0, wss = 0,
       utilization = 0, iosize = 0, prefix_cgroup_name = [], scheduler = [],
       trace_replay_path = [], device = [], trace_data_path = [], cgroup_id = [],
       ppid = 0, mqid = 0, semid = 0, shmid = 0, next_ptr = None \<rparr>"

section \<open>Process state and errors\<close>

text \<open>
  The state a call can change: the keys of the process-wide \<^verbatim>\<open>hsearch\<close> table
  (created by the caller with room for every task, so that \<^verbatim>\<open>ENTER\<close> stores the key)
  and the number of heap blocks obtained from \<^verbatim>\<open>malloc\<close> and not yet freed.
\<close>

record sys_state =
  htab :: "string set"
  heap_blocks :: nat

definition malloc_block :: "sys_state \<Rightarrow> sys_state" where
  "malloc_block s = s\<lparr>heap_blocks := heap_blocks s + 1\<rparr>"

definition free_block :: "sys_state \<Rightarrow> sys_state" where
  "free_block s = s\<lparr>heap_blocks := heap_blocks s - 1\<rparr>"

text \<open>
  Every way a call ends without a descriptor. The first seven are the error messages
  after which the code jumps to \<^verbatim>\<open>exception\<close> and \<^verbatim>\<open>docker_info_init\<close> returns
  \<^verbatim>\<open>NULL\<close>:
  \<^item> \<open>Memory_allocation_fail\<close>: "Memory allocation fail";
  \<^item> \<open>Not_exist ks\<close>: "Not exist error (key: k)", printed for each key of \<open>ks\<close>;
  \<^item> \<open>Cannot_find_trace_replay p\<close>: "Cannot find the trace_replay_path: p";
  \<^item> \<open>Unsupported_scheduler n\<close>: "Unsupported scheduler (name: n)";
  \<^item> \<open>Array_out_of_bound i\<close>: "Array out-of-bound error (index: i)";
  \<^item> \<open>Trace_data_not_exist p\<close>: "Trace data file not exist: p";
  \<^item> \<open>Duplicate_cgroup k\<close>: "Duplicate c-group name detected (name: k)".

  The last two are not returns: \<open>Assertion_failure\<close> is \<^verbatim>\<open>assert\<close> aborting the
  process, \<open>Undefined\<close> is behaviour that C or json-c leave undefined (\<^verbatim>\<open>sprintf\<close>
  past the end of an array, indexing a node that is not an array).
\<close>

datatype error =
    Memory_allocation_fail
  | Not_exist "string list"
  | Cannot_find_trace_replay string
  | Unsupported_scheduler string
  | Array_out_of_bound int
  | Trace_data_not_exist string
  | Duplicate_cgroup string
  | Assertion_failure
  | Undefined

datatype print_flag = DOCKER_PRINT_NONE | DOCKER_ERROR_PRINT

datatype synth = DOCKER_SYNTH | DOCKER_NOT_SYNTH

definition EINVAL :: int where
  "EINVAL = 22"

section \<open>Reading one key\<close>

text \<open>
  \<^verbatim>\<open>snprintf(member, size, "%s", s)\<close>, with \<open>sz\<close> for \<^verbatim>\<open>size\<close>: at most \<open>sz - 1\<close>
  characters of \<open>s\<close>; nothing is written when \<open>sz\<close> is 0.
\<close>

definition snprintf_s :: "string \<Rightarrow> nat \<Rightarrow> string \<Rightarrow> string" where
  "snprintf_s member sz s = (if sz = 0 then member else take (sz - 1) s)"

text \<open>
  Both setters return the C return value together with the new content of
  \<^verbatim>\<open>*member\<close>. \<open>is_print\<close> only selects whether the "Not exist" message is printed.
  The \<^verbatim>\<open>int\<close> that json-c returns is converted to \<^verbatim>\<open>unsigned int\<close> by the
  assignment.
\<close>

definition docker_info_int_value_set ::
  "env \<Rightarrow> json \<Rightarrow> string \<Rightarrow> 32 word \<Rightarrow> print_flag \<Rightarrow> int \<times> 32 word" where
  "docker_info_int_value_set env setting key member is_print =
     (case json_object_object_get_ex setting key of
        None \<Rightarrow> (- EINVAL, member)
      | Some tmp \<Rightarrow> (0, word_of_int (json_object_get_int env tmp)))"

definition docker_info_str_value_set ::
  "env \<Rightarrow> json \<Rightarrow> string \<Rightarrow> string \<Rightarrow> nat \<Rightarrow> print_flag \<Rightarrow> int \<times> string" where
  "docker_info_str_value_set env setting key member sz is_print =
     (case json_object_object_get_ex setting key of
        None \<Rightarrow> (- EINVAL, member)
      | Some tmp \<Rightarrow>
          (0, generic_strip_string env
                (snprintf_s member sz (json_object_get_string env tmp)) (CHR 0x22)))"

section \<open>Synthetic trace types\<close>

definition global_synth_type :: "string list" where
  "global_synth_type =
     [''rand_read'', ''rand_write'', ''rand_mixed'', ''seq_read'', ''seq_write'', ''seq_mixed'']"

text \<open>
  The \<^verbatim>\<open>for\<close> loop of \<^verbatim>\<open>docker_is_synth_type\<close> over the rest of the table;
  \<open>path\<close> is the argument \<^verbatim>\<open>trace_data_path\<close> and \<^verbatim>\<open>strcmp\<close> returning 0 is equality.
\<close>

fun docker_is_synth_loop :: "string \<Rightarrow> string list \<Rightarrow> synth" where
  "docker_is_synth_loop path [] = DOCKER_NOT_SYNTH"
| "docker_is_synth_loop path (t # ts) =
     (if path = t then DOCKER_SYNTH else docker_is_synth_loop path ts)"

definition docker_is_synth_type :: "string \<Rightarrow> synth" where
  "docker_is_synth_type path = docker_is_synth_loop path global_synth_type"

section \<open>The task tier: \<^verbatim>\<open>__docker_info_init\<close>\<close>

text \<open>
  Lines 153 to 178: the task entry \<open>tmp\<close> overrides what the global tier has set, key by
  key, silently. The value of \<^verbatim>\<open>trace_repeat\<close> is written to \<^verbatim>\<open>&info->weight\<close>, as
  in the source.
\<close>

definition task_overrides :: "env \<Rightarrow> json \<Rightarrow> docker_info \<Rightarrow> docker_info" where
  "task_overrides env tmp info =
     (let info = info\<lparr>time :=
            snd (docker_info_int_value_set env tmp ''time'' (time info) DOCKER_PRINT_NONE)\<rparr>;
          info = info\<lparr>q_depth :=
            snd (docker_info_int_value_set env tmp ''q_depth'' (q_depth info) DOCKER_PRINT_NONE)\<rparr>;
          info = info\<lparr>nr_thread :=
            snd (docker_info_int_value_set env tmp ''nr_thread'' (nr_thread info) DOCKER_PRINT_NONE)\<rparr>;
          info = info\<lparr>weight :=
            snd (docker_info_int_value_set env tmp ''weight'' (weight info) DOCKER_PRINT_NONE)\<rparr>;
          info = info\<lparr>weight :=
            snd (docker_info_int_value_set env tmp ''trace_repeat'' (weight info) DOCKER_PRINT_NONE)\<rparr>;
          info = info\<lparr>wss :=
            snd (docker_info_int_value_set env tmp ''wss'' (wss info) DOCKER_PRINT_NONE)\<rparr>;
          info = info\<lparr>utilization :=
            snd (docker_info_int_value_set env tmp ''utilization'' (utilization info)
                   DOCKER_PRINT_NONE)\<rparr>;
          info = info\<lparr>iosize :=
            snd (docker_info_int_value_set env tmp ''iosize'' (iosize info) DOCKER_PRINT_NONE)\<rparr>;
          info = info\<lparr>prefix_cgroup_name :=
            snd (docker_info_str_value_set env tmp ''prefix_cgroup_name''
                   (prefix_cgroup_name info) (sizeof_prefix_cgroup_name env) DOCKER_PRINT_NONE)\<rparr>;
          info = info\<lparr>scheduler :=
            snd (docker_info_str_value_set env tmp ''scheduler''
                   (scheduler info) (sizeof_scheduler env) DOCKER_PRINT_NONE)\<rparr>;
          info = info\<lparr>trace_replay_path :=
            snd (docker_info_str_value_set env tmp ''trace_replay_path''
                   (trace_replay_path info) (sizeof_trace_replay_path env) DOCKER_PRINT_NONE)\<rparr>;
          info = info\<lparr>device :=
            snd (docker_info_str_value_set env tmp ''device''
                   (device info) (sizeof_device env) DOCKER_PRINT_NONE)\<rparr>
      in info)"

text \<open>
  Lines 140 to 220 of \<^verbatim>\<open>__docker_info_init(setting, index, info)\<close>: the task entry is
  located, its keys override the descriptor, and the scheduler, the weight, the two
  keys every task supplies and the trace source are checked. \<open>Inl\<close> is a jump to
  \<^verbatim>\<open>exception\<close>; there \<^verbatim>\<open>ret\<close> is \<^verbatim>\<open>-EINVAL\<close>, the negative answer of the
  scheduler test or the -1 of \<^verbatim>\<open>lstat\<close>, never 0. The table is not consulted yet.
\<close>

definition uu_docker_info_init_checks ::
  "env \<Rightarrow> json \<Rightarrow> int \<Rightarrow> docker_info \<Rightarrow> error + docker_info" where
  "uu_docker_info_init_checks env setting index info =
     (case json_object_object_get_ex setting ''task_option'' of
        None \<Rightarrow> Inl (Not_exist [''task_option''])
      | Some arr \<Rightarrow>
        if \<not> json_is_array arr then Inl Undefined
        else
          (case json_object_array_get_idx arr index of
             None \<Rightarrow> Inl (Array_out_of_bound index)
           | Some tmp \<Rightarrow>
             let info = task_overrides env tmp info;
                 ret = docker_valid_scheduler_test env (scheduler info)
             in if 0 > ret then Inl (Unsupported_scheduler (scheduler info))
                else
                  let print_flag = (if docker_has_weight_scheduler env ret
                                    then DOCKER_ERROR_PRINT else DOCKER_PRINT_NONE);
                      r = docker_info_int_value_set env tmp ''weight'' (weight info) print_flag;
                      ret = fst r;
                      info = info\<lparr>weight := snd r\<rparr>
                  in if DOCKER_ERROR_PRINT = print_flag \<and> 0 \<noteq> ret
                     then Inl (Not_exist [''weight''])
                     else
                       let r = docker_info_str_value_set env tmp ''trace_data_path''
                                 (trace_data_path info) (sizeof_trace_data_path env)
                                 DOCKER_ERROR_PRINT;
                           ret = fst r;
                           info = info\<lparr>trace_data_path := snd r\<rparr>
                       in if 0 \<noteq> ret then Inl (Not_exist [''trace_data_path''])
                          else
                            let r = docker_info_str_value_set env tmp ''cgroup_id''
                                      (cgroup_id info) (sizeof_cgroup_id env) DOCKER_ERROR_PRINT;
                                ret = fst r;
                                info = info\<lparr>cgroup_id := snd r\<rparr>
                            in if 0 \<noteq> ret then Inl (Not_exist [''cgroup_id''])
                               else if DOCKER_SYNTH \<noteq> docker_is_synth_type (trace_data_path info)
                                       \<and> \<not> lstat_ok env (trace_data_path info)
                               then Inl (Trace_data_not_exist (trace_data_path info))
                               else Inr info))"

text \<open>
  Lines 221 to 233: the process id is recorded, the table is searched for the cgroup
  id (\<^verbatim>\<open>FIND\<close>) and the id is entered (\<^verbatim>\<open>ENTER\<close>) when it is not there. \<^verbatim>\<open>ret\<close> is
  \<^verbatim>\<open>-EINVAL\<close> for a duplicate and otherwise still the 0 of the last check.
\<close>

definition register_cgroup ::
  "env \<Rightarrow> docker_info \<Rightarrow> sys_state \<Rightarrow> (error + docker_info) \<times> sys_state" where
  "register_cgroup env info s =
     (let info = info\<lparr>ppid := getpid env\<rparr>
      in if cgroup_id info \<in> htab s
         then (Inl (Duplicate_cgroup (cgroup_id info)), s)
         else (Inr info, s\<lparr>htab := insert (cgroup_id info) (htab s)\<rparr>))"

text \<open>
  \<^verbatim>\<open>__docker_info_init(setting, index, info)\<close>. The C function returns \<^verbatim>\<open>ret\<close> and
  the caller tests \<^verbatim>\<open>0 != ret\<close>: \<open>Inl\<close> is a return with \<^verbatim>\<open>ret\<close> different from 0,
  \<open>Inr\<close> the return of 0 with the descriptor filled in.
\<close>

definition uu_docker_info_init ::
  "env \<Rightarrow> json \<Rightarrow> int \<Rightarrow> docker_info \<Rightarrow> sys_state \<Rightarrow> (error + docker_info) \<times> sys_state" where
  "uu_docker_info_init env setting index info s =
     (case uu_docker_info_init_checks env setting index info of
        Inl e \<Rightarrow> (Inl e, s)
      | Inr info \<Rightarrow> register_cgroup env info s)"

section \<open>The global tier: \<^verbatim>\<open>docker_info_init\<close>\<close>

definition mandatory_keys :: "string list" where
  "mandatory_keys =
     [''time'', ''q_depth'', ''nr_thread'', ''prefix_cgroup_name'', ''scheduler'', ''device'',
      ''trace_replay_path'']"

text \<open>
  Lines 263 to 282: seven loud reads from the global object, their return values
  collected in \<^verbatim>\<open>ret\<close> with \<^verbatim>\<open>|=\<close>.
\<close>

definition pull_mandatory :: "env \<Rightarrow> json \<Rightarrow> docker_info \<Rightarrow> int \<times> docker_info" where
  "pull_mandatory env setting info =
     (let ret = 0;
          r = docker_info_int_value_set env setting ''time'' (time info) DOCKER_ERROR_PRINT;
          ret = ret OR fst r;
          info = info\<lparr>time := snd r\<rparr>;
          r = docker_info_int_value_set env setting ''q_depth'' (q_depth info) DOCKER_ERROR_PRINT;
          ret = ret OR fst r;
          info = info\<lparr>q_depth := snd r\<rparr>;
          r = docker_info_int_value_set env setting ''nr_thread'' (nr_thread info)
                DOCKER_ERROR_PRINT;
          ret = ret OR fst r;
          info = info\<lparr>nr_thread := snd r\<rparr>;
          r = docker_info_str_value_set env setting ''prefix_cgroup_name''
                (prefix_cgroup_name info) (sizeof_prefix_cgroup_name env) DOCKER_ERROR_PRINT;
          ret = ret OR fst r;
          info = info\<lparr>prefix_cgroup_name := snd r\<rparr>;
          r = docker_info_str_value_set env setting ''scheduler''
                (scheduler info) (sizeof_scheduler env) DOCKER_ERROR_PRINT;
          ret = ret OR fst r;
          info = info\<lparr>scheduler := snd r\<rparr>;
          r = docker_info_str_value_set env setting ''device''
                (device info) (sizeof_device env) DOCKER_ERROR_PRINT;
          ret = ret OR fst r;
          info = info\<lparr>device := snd r\<rparr>;
          r = docker_info_str_value_set env setting ''trace_replay_path''
                (trace_replay_path info) (sizeof_trace_replay_path env) DOCKER_ERROR_PRINT;
          ret = ret OR fst r;
          info = info\<lparr>trace_replay_path := snd r\<rparr>
      in (ret, info))"

text \<open>
  Lines 311 to 325: the silent reads from the global object. Here too the value of
  \<^verbatim>\<open>trace_repeat\<close> is written to \<^verbatim>\<open>&info->weight\<close>.
\<close>

definition pull_optional :: "env \<Rightarrow> json \<Rightarrow> docker_info \<Rightarrow> docker_info" where
  "pull_optional env setting info =
     (let info = info\<lparr>weight :=
            snd (docker_info_int_value_set env setting ''weight'' (weight info)
                   DOCKER_PRINT_NONE)\<rparr>;
          info = info\<lparr>weight :=
            snd (docker_info_int_value_set env setting ''trace_repeat'' (weight info)
                   DOCKER_PRINT_NONE)\<rparr>;
          info = info\<lparr>wss :=
            snd (docker_info_int_value_set env setting ''wss'' (wss info) DOCKER_PRINT_NONE)\<rparr>;
          info = info\<lparr>utilization :=
            snd (docker_info_int_value_set env setting ''utilization'' (utilization info)
                   DOCKER_PRINT_NONE)\<rparr>;
          info = info\<lparr>iosize :=
            snd (docker_info_int_value_set env setting ''iosize'' (iosize info)
                   DOCKER_PRINT_NONE)\<rparr>;
          info = info\<lparr>trace_data_path :=
            snd (docker_info_str_value_set env setting ''trace_data_path''
                   (trace_data_path info) (sizeof_trace_data_path env) DOCKER_PRINT_NONE)\<rparr>
      in info)"

text \<open>
  Lines 253 to 325 of \<^verbatim>\<open>docker_info_init(setting, index)\<close>, everything before the
  call of \<^verbatim>\<open>__docker_info_init\<close>: \<open>Inr info\<close> is the descriptor handed to that call,
  \<open>Inl e\<close> the return of \<^verbatim>\<open>NULL\<close> after \<^verbatim>\<open>free(info)\<close> (or no return at all for the
  last two errors). The redirect to \<^verbatim>\<open>/usr/bin/\<close> allocates \<^verbatim>\<open>buffer\<close>, copies the
  path with \<^verbatim>\<open>sprintf\<close> into arrays of \<open>sizeof_trace_replay_path\<close> bytes (the prefixed
  path and its NUL must fit) and frees \<^verbatim>\<open>buffer\<close>.
\<close>

definition docker_info_init_global ::
  "env \<Rightarrow> json \<Rightarrow> sys_state \<Rightarrow> (error + docker_info) \<times> sys_state" where
  "docker_info_init_global env setting s =
     (if \<not> malloc_info env then (Inl Memory_allocation_fail, s)
      else
        let s = malloc_block s;
            info = memset_zero\<lparr>trace_repeat := 1\<rparr>;
            r = pull_mandatory env setting info;
            ret = fst r;
            info = snd r
        in if 0 \<noteq> ret
           then (Inl (Not_exist
                   (filter (\<lambda>k. json_object_object_get_ex setting k = None) mandatory_keys)),
                 free_block s)
           else if \<not> lstat_ok env (trace_replay_path info) \<and> \<not> malloc_buffer env
           then (Inl Assertion_failure, s)
           else if \<not> lstat_ok env (trace_replay_path info)
                   \<and> \<not> length (''/usr/bin/'' @ trace_replay_path info) < sizeof_trace_replay_path env
           then (Inl Undefined, s)
           else
             let info = (if \<not> lstat_ok env (trace_replay_path info)
                         then info\<lparr>trace_replay_path := ''/usr/bin/'' @ trace_replay_path info\<rparr>
                         else info);
                 s = (if \<not> lstat_ok env (trace_replay_path (snd r))
                      then free_block (malloc_block s) else s)
             in if \<not> lstat_ok env (trace_replay_path info)
                then (Inl (Cannot_find_trace_replay (trace_replay_path info)), free_block s)
                else
                  let ret = docker_valid_scheduler_test env (scheduler info)
                  in if 0 > ret
                     then (Inl (Unsupported_scheduler (scheduler info)), free_block s)
                     else (Inr (pull_optional env setting info), s))"

text \<open>
  \<^verbatim>\<open>docker_info_init(setting, index)\<close>: the global tier, the call of
  \<^verbatim>\<open>__docker_info_init\<close>, and lines 333 to 337 on its success. \<open>Inr info\<close> is the
  descriptor returned to the caller.
\<close>

definition docker_info_init ::
  "env \<Rightarrow> json \<Rightarrow> int \<Rightarrow> sys_state \<Rightarrow> (error + docker_info) \<times> sys_state" where
  "docker_info_init env setting index s =
     (case docker_info_init_global env setting s of
        (Inl e, s) \<Rightarrow> (Inl e, s)
      | (Inr info, s) \<Rightarrow>
          (case uu_docker_info_init env setting index info s of
             (Inl e, s) \<Rightarrow> (Inl e, free_block s)
           | (Inr info, s) \<Rightarrow>
               (Inr (info\<lparr>mqid := - 1, semid := - 1, shmid := - 1, next_ptr := None\<rparr>), s)))"

section \<open>A sample environment and sample configurations\<close>

text \<open>
  A concrete environment on which the theorems below are exercised: json-c's coercions
  on integers and strings, no quote left to strip, three schedulers of which \<^verbatim>\<open>bfq\<close>
  takes a weight, a file system holding \<^verbatim>\<open>/usr/bin/trace-replay\<close> and
  \<^verbatim>\<open>/tmp/trace.dat\<close>, and arrays of 64 bytes.
\<close>

definition sample_get_int :: "json \<Rightarrow> int" where
  "sample_get_int j = (case j of JInt n \<Rightarrow> n | _ \<Rightarrow> 0)"

definition sample_get_string :: "json \<Rightarrow> string" where
  "sample_get_string j = (case j of JString str \<Rightarrow> str | _ \<Rightarrow> [])"

definition sample_scheduler_test :: "string \<Rightarrow> int" where
  "sample_scheduler_test n =
     (if n = ''none'' then 0 else if n = ''kyber'' then 1 else if n = ''bfq'' then 2
      else - EINVAL)"

definition sample_lstat_ok :: "string \<Rightarrow> bool" where
  "sample_lstat_ok p = (p = ''/usr/bin/trace-replay'' \<or> p = ''/tmp/trace.dat'')"

definition sample_env :: env where
  "sample_env =
     \<lparr> json_object_get_int = sample_get_int,
       json_object_get_string = sample_get_string,
       generic_strip_string = (\<lambda>str c. str),
       docker_valid_scheduler_test = sample_scheduler_test,
       docker_has_weight_scheduler = (\<lambda>i. i = 2),
       lstat_ok = sample_lstat_ok,
       getpid = 4242,
       malloc_info = True,
       malloc_buffer = True,
       sizeof_prefix_cgroup_name = 64,
       sizeof_scheduler = 64,
       sizeof_trace_replay_path = 64,
       sizeof_device = 64,
       sizeof_trace_data_path = 64,
       sizeof_cgroup_id = 64 \<rparr>"

definition empty_state :: sys_state where
  "empty_state = \<lparr> htab = {}, heap_blocks = 0 \<rparr>"

text \<open>
  The global object of the sample configurations: the seven mandatory keys with the
  scheduler \<open>sched\<close>, then the keys \<open>extra\<close>, then the task array \<open>tasks\<close>.
\<close>

definition sample_setting :: "string \<Rightarrow> (string \<times> json) list \<Rightarrow> json list \<Rightarrow> json" where
  "sample_setting sched extra tasks =
     JObject ([(''time'', JInt 60), (''q_depth'', JInt 32), (''nr_thread'', JInt 4),
               (''prefix_cgroup_name'', JString ''bench_''), (''scheduler'', JString sched),
               (''device'', JString ''/dev/sdb''),
               (''trace_replay_path'', JString ''trace-replay'')]
              @ extra @ [(''task_option'', JArray tasks)])"

text \<open>A task entry with the two keys every task needs, then the keys \<open>extra\<close>.\<close>

definition sample_task :: "string \<Rightarrow> string \<Rightarrow> (string \<times> json) list \<Rightarrow> json" where
  "sample_task cid path extra =
     JObject ([(''cgroup_id'', JString cid), (''trace_data_path'', JString path)] @ extra)"

text \<open>
  The descriptor of the sample task \<^verbatim>\<open>t0\<close> replaying the synthetic trace
  \<^verbatim>\<open>seq_read\<close> under the scheduler \<open>sched\<close> with the weight \<open>w\<close>.
\<close>

definition sample_descriptor :: "string \<Rightarrow> 32 word \<Rightarrow> docker_info" where
  "sample_descriptor sched w =
     \<lparr> time = 60, q_depth = 32, nr_thread = 4, weight = w, trace_repeat = 1, wss = 0,
       utilization = 0, iosize = 0, prefix_cgroup_name = ''bench_'', scheduler = sched,
       trace_replay_path = ''/usr/bin/trace-replay'', device = ''/dev/sdb'',
       trace_data_path = ''seq_read'', cgroup_id = ''t0'', ppid = 4242, mqid = - 1,
       semid = - 1, shmid = - 1, next_ptr = None \<rparr>"

text \<open>
  The descriptor that the global tier of the sample configurations hands to the task
  tier, with the weight \<open>w\<close> and the trace source \<open>path\<close> read from the global object.
\<close>

definition sample_global_info :: "string \<Rightarrow> 32 word \<Rightarrow> string \<Rightarrow> docker_info" where
  "sample_global_info sched w path =
     \<lparr> time = 60, q_depth = 32, nr_thread = 4, weight = w, trace_repeat = 1, wss = 0,
       utilization = 0, iosize = 0, prefix_cgroup_name = ''bench_'', scheduler = sched,
       trace_replay_path = ''/usr/bin/trace-replay'', device = ''/dev/sdb'',
       trace_data_path = path, cgroup_id = [], ppid = 0, mqid = 0, semid = 0, shmid = 0,
       next_ptr = None \<rparr>"

section \<open>Basic facts\<close>

lemmas sample_defs =
  sample_env_def sample_get_int_def sample_get_string_def sample_scheduler_test_def
  sample_lstat_ok_def empty_state_def sample_setting_def sample_task_def sample_descriptor_def
  sample_global_info_def

lemmas model_defs =
  docker_info_init_def docker_info_init_global_def uu_docker_info_init_def
  uu_docker_info_init_checks_def pull_mandatory_def
  pull_optional_def task_overrides_def register_cgroup_def docker_info_int_value_set_def
  docker_info_str_value_set_def snprintf_s_def docker_is_synth_type_def global_synth_type_def
  mandatory_keys_def memset_zero_def malloc_block_def free_block_def EINVAL_def

lemma free_malloc: "free_block (malloc_block s) = s"
  by (simp add: free_block_def malloc_block_def)

lemma htab_malloc [simp]: "htab (malloc_block s) = htab s"
  by (simp add: malloc_block_def)

lemma htab_free [simp]: "htab (free_block s) = htab s"
  by (simp add: free_block_def)

text \<open>\<^verbatim>\<open>__docker_info_init\<close> touches the table only when it succeeds.\<close>

lemma uu_fail_state:
  "uu_docker_info_init env setting index info s = (Inl e, s') \<Longrightarrow> s' = s"
  by (auto simp: uu_docker_info_init_def register_cgroup_def Let_def
      split: sum.splits if_splits)

lemma uu_success:
  "uu_docker_info_init env setting index info s = (Inr d, s') \<Longrightarrow>
     cgroup_id d \<notin> htab s \<and> s' = s\<lparr>htab := insert (cgroup_id d) (htab s)\<rparr>"
  by (auto simp: uu_docker_info_init_def register_cgroup_def Let_def
      split: sum.splits if_splits)

lemma global_success_state:
  "docker_info_init_global env setting s = (Inr info, s1) \<Longrightarrow> s1 = malloc_block s"
  by (auto simp: docker_info_init_global_def Let_def free_malloc split: if_splits)

lemma global_fail_state:
  "docker_info_init_global env setting s = (Inl e, s1) \<Longrightarrow>
     htab s1 = htab s \<and> (e \<noteq> Assertion_failure \<and> e \<noteq> Undefined \<longrightarrow> s1 = s)"
  by (auto simp: docker_info_init_global_def Let_def free_malloc split: if_splits)

lemma pull_mandatory_ret:
  "fst (pull_mandatory env setting info) = 0 \<longleftrightarrow>
     (\<forall>k \<in> set mandatory_keys. json_object_object_get_ex setting k \<noteq> None)"
  by (simp add: pull_mandatory_def Let_def docker_info_int_value_set_def
      docker_info_str_value_set_def mandatory_keys_def or_eq_0_iff EINVAL_def
      split: option.splits)

lemma global_mandatory_missing:
  assumes "k \<in> set mandatory_keys" and "json_object_object_get_ex setting k = None"
    and "malloc_info env"
  shows "docker_info_init_global env setting s =
     (Inl (Not_exist (filter (\<lambda>k. json_object_object_get_ex setting k = None) mandatory_keys)), s)"
proof -
  from assms(1,2) have "fst (pull_mandatory env setting (memset_zero\<lparr>trace_repeat := 1\<rparr>)) \<noteq> 0"
    unfolding pull_mandatory_ret by blast
  with assms(3) show ?thesis
    by (simp add: docker_info_init_global_def Let_def free_malloc)
qed

lemma global_mandatory_missing_any:
  assumes "k \<in> set mandatory_keys" and "json_object_object_get_ex setting k = None"
  shows "docker_info_init_global env setting s \<noteq> (Inr info, s1)"
proof -
  from assms(1,2) have "fst (pull_mandatory env setting (memset_zero\<lparr>trace_repeat := 1\<rparr>)) \<noteq> 0"
    unfolding pull_mandatory_ret by blast
  then show ?thesis
    by (simp add: docker_info_init_global_def Let_def free_malloc)
qed

text \<open>Nothing but the two existence checks depends on the file system.\<close>

lemma int_value_set_lstat:
  "docker_info_int_value_set (env\<lparr>lstat_ok := f\<rparr>) = docker_info_int_value_set env"
  by (simp add: fun_eq_iff docker_info_int_value_set_def cong: option.case_cong)

lemma str_value_set_lstat:
  "docker_info_str_value_set (env\<lparr>lstat_ok := f\<rparr>) = docker_info_str_value_set env"
  by (simp add: fun_eq_iff docker_info_str_value_set_def cong: option.case_cong)

lemma task_overrides_lstat:
  "task_overrides (env\<lparr>lstat_ok := f\<rparr>) tmp info = task_overrides env tmp info"
  by (simp add: task_overrides_def int_value_set_lstat str_value_set_lstat)

text \<open>The members that lines 153 to 178 do not write.\<close>

lemma task_overrides_keeps:
  "trace_data_path (task_overrides env tmp info) = trace_data_path info"
  "cgroup_id (task_overrides env tmp info) = cgroup_id info"
  "trace_repeat (task_overrides env tmp info) = trace_repeat info"
  "ppid (task_overrides env tmp info) = ppid info"
  by (simp_all add: task_overrides_def Let_def)

text \<open>The members that the reads from the global object do not write.\<close>

lemma pull_keeps:
  "cgroup_id (snd (pull_mandatory env setting info)) = cgroup_id info"
  "trace_repeat (snd (pull_mandatory env setting info)) = trace_repeat info"
  "cgroup_id (pull_optional env setting info) = cgroup_id info"
  "trace_repeat (pull_optional env setting info) = trace_repeat info"
  "trace_replay_path (pull_optional env setting info) = trace_replay_path info"
  "scheduler (pull_optional env setting info) = scheduler info"
  by (simp_all add: pull_mandatory_def pull_optional_def Let_def)

text \<open>What holds of the descriptor when the global tier passes.\<close>

lemma global_success_fields:
  assumes "docker_info_init_global env setting s = (Inr info, s1)"
  shows "cgroup_id info = []" and "trace_repeat info = 1"
    and "lstat_ok env (trace_replay_path info)"
    and "0 \<le> docker_valid_scheduler_test env (scheduler info)"
  using assms
  by (auto simp: docker_info_init_global_def Let_def pull_keeps memset_zero_def split: if_splits)

text \<open>The global tier does not look at the table.\<close>

lemma malloc_block_htab: "malloc_block (s\<lparr>htab := H\<rparr>) = (malloc_block s)\<lparr>htab := H\<rparr>"
  by (simp add: malloc_block_def)

lemma free_block_htab: "free_block (s\<lparr>htab := H\<rparr>) = (free_block s)\<lparr>htab := H\<rparr>"
  by (simp add: free_block_def)

lemma global_htab:
  "docker_info_init_global env setting (s\<lparr>htab := H\<rparr>) =
     (fst (docker_info_init_global env setting s),
      (snd (docker_info_init_global env setting s))\<lparr>htab := H\<rparr>)"
  by (simp add: docker_info_init_global_def Let_def malloc_block_htab free_block_htab free_malloc)

text \<open>
  A call that succeeds on some table does the same on any other table, up to the
  duplicate check.
\<close>

lemma uu_htab:
  "uu_docker_info_init env setting index info (s\<lparr>htab := H\<rparr>) = (Inr d, s') \<Longrightarrow>
   uu_docker_info_init env setting index info s =
     (if cgroup_id d \<in> htab s then (Inl (Duplicate_cgroup (cgroup_id d)), s)
      else (Inr d, s\<lparr>htab := insert (cgroup_id d) (htab s)\<rparr>))"
  by (auto simp: uu_docker_info_init_def register_cgroup_def Let_def
      split: sum.splits if_splits)

lemma docker_info_init_htab:
  assumes "docker_info_init env setting index (s\<lparr>htab := H\<rparr>) = (Inr d, s')"
  shows "docker_info_init env setting index s =
     (if cgroup_id d \<in> htab s then (Inl (Duplicate_cgroup (cgroup_id d)), s)
      else (Inr d, (malloc_block s)\<lparr>htab := insert (cgroup_id d) (htab s)\<rparr>))"
proof -
  obtain r s1 where g: "docker_info_init_global env setting s = (r, s1)"
    by (cases "docker_info_init_global env setting s")
  with assms obtain info where r: "r = Inr info"
    by (cases r) (auto simp: docker_info_init_def global_htab)
  from g r have s1: "s1 = malloc_block s" by (simp add: global_success_state)
  from assms g r obtain d0 s0 where
    u: "uu_docker_info_init env setting index info (s1\<lparr>htab := H\<rparr>) = (Inr d0, s0)"
    and d: "d = d0\<lparr>mqid := - 1, semid := - 1, shmid := - 1, next_ptr := None\<rparr>"
    by (auto simp: docker_info_init_def global_htab split: prod.splits sum.splits)
  from d have c: "cgroup_id d = cgroup_id d0" by simp
  from uu_htab [OF u] g r s1 d c show ?thesis
    by (simp add: docker_info_init_def free_malloc)
qed

text \<open>The setters: the print flag changes no result, and the return value tells presence.\<close>

lemma int_value_set_flag:
  "docker_info_int_value_set env tmp key m f = docker_info_int_value_set env tmp key m DOCKER_PRINT_NONE"
  by (simp add: docker_info_int_value_set_def)

lemma value_set_fst:
  "fst (docker_info_int_value_set env tmp key m f) = 0 \<longleftrightarrow> json_object_object_get_ex tmp key \<noteq> None"
  "fst (docker_info_str_value_set env tmp key str sz f) = 0 \<longleftrightarrow> json_object_object_get_ex tmp key \<noteq> None"
  by (simp_all add: docker_info_int_value_set_def docker_info_str_value_set_def EINVAL_def
      split: option.splits)

lemma str_value_set_same_key:
  "json_object_object_get_ex a key = json_object_object_get_ex b key \<Longrightarrow>
   docker_info_str_value_set env a key m sz f = docker_info_str_value_set env b key m sz f"
  by (simp add: docker_info_str_value_set_def)

text \<open>The checks of the task tier, once the task entry is located.\<close>

lemma checks_located:
  assumes "json_object_object_get_ex setting ''task_option'' = Some arr"
    and "json_is_array arr" and "json_object_array_get_idx arr index = Some tmp"
  shows "uu_docker_info_init_checks env setting index info =
     (if docker_valid_scheduler_test env (scheduler (task_overrides env tmp info)) < 0
      then Inl (Unsupported_scheduler (scheduler (task_overrides env tmp info)))
      else if docker_has_weight_scheduler env
                (docker_valid_scheduler_test env (scheduler (task_overrides env tmp info)))
              \<and> json_object_object_get_ex tmp ''weight'' = None
      then Inl (Not_exist [''weight''])
      else if json_object_object_get_ex tmp ''trace_data_path'' = None
      then Inl (Not_exist [''trace_data_path''])
      else if json_object_object_get_ex tmp ''cgroup_id'' = None
      then Inl (Not_exist [''cgroup_id''])
      else if docker_is_synth_type
                (snd (docker_info_str_value_set env tmp ''trace_data_path''
                        (trace_data_path info) (sizeof_trace_data_path env) DOCKER_ERROR_PRINT))
                \<noteq> DOCKER_SYNTH
              \<and> \<not> lstat_ok env
                (snd (docker_info_str_value_set env tmp ''trace_data_path''
                        (trace_data_path info) (sizeof_trace_data_path env) DOCKER_ERROR_PRINT))
      then Inl (Trace_data_not_exist
                (snd (docker_info_str_value_set env tmp ''trace_data_path''
                        (trace_data_path info) (sizeof_trace_data_path env) DOCKER_ERROR_PRINT)))
      else Inr ((task_overrides env tmp info)
           \<lparr>weight := snd (docker_info_int_value_set env tmp ''weight''
                             (weight (task_overrides env tmp info)) DOCKER_PRINT_NONE),
            trace_data_path := snd (docker_info_str_value_set env tmp ''trace_data_path''
                             (trace_data_path info) (sizeof_trace_data_path env) DOCKER_ERROR_PRINT),
            cgroup_id := snd (docker_info_str_value_set env tmp ''cgroup_id''
                             (cgroup_id info) (sizeof_cgroup_id env) DOCKER_ERROR_PRINT)\<rparr>))"
  unfolding uu_docker_info_init_checks_def using assms
  by (simp add: Let_def task_overrides_keeps value_set_fst
      int_value_set_flag [of _ _ _ _ DOCKER_ERROR_PRINT] eq_commute [of DOCKER_SYNTH])

lemma checks_success_located:
  assumes "uu_docker_info_init_checks env setting index info = Inr info'"
  shows "\<exists>arr tmp. json_object_object_get_ex setting ''task_option'' = Some arr
      \<and> json_is_array arr \<and> json_object_array_get_idx arr index = Some tmp"
  using assms unfolding uu_docker_info_init_checks_def
  by (auto split: option.splits if_splits)

text \<open>\<^verbatim>\<open>docker_info_init\<close> once the global tier has passed.\<close>

lemma docker_info_init_after_global:
  assumes "docker_info_init_global env setting s = (Inr info, s1)"
  shows "docker_info_init env setting index s =
     (case uu_docker_info_init_checks env setting index info of
        Inl e \<Rightarrow> (Inl e, s)
      | Inr i \<Rightarrow>
          if cgroup_id i \<in> htab s then (Inl (Duplicate_cgroup (cgroup_id i)), s)
          else (Inr (i\<lparr>ppid := getpid env, mqid := - 1, semid := - 1, shmid := - 1,
                        next_ptr := None\<rparr>),
                (malloc_block s)\<lparr>htab := insert (cgroup_id i) (htab s)\<rparr>))"
  using assms global_success_state [OF assms]
  by (simp add: docker_info_init_def uu_docker_info_init_def register_cgroup_def Let_def
      free_malloc split: sum.splits)

text \<open>What a returned descriptor looks like.\<close>

lemma success_descriptor:
  assumes "docker_info_init env setting index s = (Inr d, s')"
  shows "\<exists>info s1 arr tmp.
      docker_info_init_global env setting s = (Inr info, s1)
      \<and> json_object_object_get_ex setting ''task_option'' = Some arr
      \<and> json_is_array arr \<and> json_object_array_get_idx arr index = Some tmp
      \<and> json_object_object_get_ex tmp ''trace_data_path'' \<noteq> None
      \<and> json_object_object_get_ex tmp ''cgroup_id'' \<noteq> None
      \<and> d = (task_overrides env tmp info)
           \<lparr>weight := snd (docker_info_int_value_set env tmp ''weight''
                             (weight (task_overrides env tmp info)) DOCKER_PRINT_NONE),
            trace_data_path := snd (docker_info_str_value_set env tmp ''trace_data_path''
                             (trace_data_path info) (sizeof_trace_data_path env) DOCKER_ERROR_PRINT),
            cgroup_id := snd (docker_info_str_value_set env tmp ''cgroup_id'' []
                             (sizeof_cgroup_id env) DOCKER_ERROR_PRINT),
            ppid := getpid env, mqid := - 1, semid := - 1, shmid := - 1, next_ptr := None\<rparr>"
proof -
  obtain r s1 where g: "docker_info_init_global env setting s = (r, s1)"
    by (cases "docker_info_init_global env setting s")
  with assms obtain info where r: "r = Inr info"
    by (cases r) (auto simp: docker_info_init_def)
  note g' = g [unfolded r]
  from assms obtain i where c: "uu_docker_info_init_checks env setting index info = Inr i"
    by (cases "uu_docker_info_init_checks env setting index info")
       (auto simp: docker_info_init_after_global [OF g'])
  from checks_success_located [OF c] obtain arr tmp where
    l: "json_object_object_get_ex setting ''task_option'' = Some arr" "json_is_array arr"
       "json_object_array_get_idx arr index = Some tmp"
    by blast
  from c assms show ?thesis
    using g' l global_success_fields(1) [OF g']
    by (auto simp: docker_info_init_after_global [OF g'] checks_located [OF l]
        split: if_splits)
qed

text \<open>The global tier of the sample configurations, evaluated.\<close>

lemma sample_global_run:
  "sched \<in> {''none'', ''kyber'', ''bfq''} \<Longrightarrow>
   docker_info_init_global sample_env (sample_setting sched [] tasks) empty_state
   = (Inr (sample_global_info sched 0 []), \<lparr> htab = {}, heap_blocks = 1 \<rparr>)"
  by (auto simp: sample_defs model_defs Let_def)

lemma failed_task_run:
  "docker_info_init sample_env
     (sample_setting ''none'' [] [sample_task ''t0'' ''/tmp/missing.dat'' []]) 0 empty_state
   = (Inl (Trace_data_not_exist ''/tmp/missing.dat''), empty_state)"
  by (simp add: sample_defs model_defs Let_def)

text \<open>The sample global tier on a file system that holds the executable and no trace file.\<close>

lemma scenario_run_without_trace_files:
  "docker_info_init_global (sample_env\<lparr>lstat_ok := (\<lambda>p. p = ''/usr/bin/trace-replay'')\<rparr>)
     (sample_setting ''none'' [] [sample_task ''t0'' ''seq_read'' []]) empty_state
   = (Inr (sample_global_info ''none'' 0 []), \<lparr> htab = {}, heap_blocks = 1 \<rparr>)"
  by (simp add: sample_defs model_defs Let_def)

text \<open>The scenario of the specification, evaluated.\<close>

lemma scenario_run:
  "docker_info_init sample_env
     (sample_setting ''none'' [] [sample_task ''t0'' ''seq_read'' []]) 0 empty_state
   = (Inr (sample_descriptor ''none'' 0), \<lparr> htab = {''t0''}, heap_blocks = 1 \<rparr>)"
  by (simp add: sample_defs model_defs Let_def)

text \<open>What the mandatory reads store for the executable and the scheduler.\<close>

lemma pull_mandatory_stores:
  "trace_replay_path (snd (pull_mandatory env setting info)) =
     snd (docker_info_str_value_set env setting ''trace_replay_path'' (trace_replay_path info)
            (sizeof_trace_replay_path env) DOCKER_ERROR_PRINT)"
  "scheduler (snd (pull_mandatory env setting info)) =
     snd (docker_info_str_value_set env setting ''scheduler'' (scheduler info)
            (sizeof_scheduler env) DOCKER_ERROR_PRINT)"
  by (simp_all add: pull_mandatory_def Let_def)

text \<open>
  No read writes the member \<^verbatim>\<open>trace_repeat\<close>: it keeps the 1 of line 261.
\<close>

lemma trace_repeat_never_set:
  assumes "docker_info_init env setting index s = (Inr d, s')"
  shows "trace_repeat d = 1"
proof -
  from success_descriptor [OF assms] obtain info s1 arr tmp where
    g: "docker_info_init_global env setting s = (Inr info, s1)"
    and d: "trace_repeat d = trace_repeat (task_overrides env tmp info)"
    by auto
  from d global_success_fields(2) [OF g] show ?thesis
    by (simp add: task_overrides_keeps)
qed

section \<open>The claims\<close>

text \<open>
  C1, as amended. Two task entries of one configuration carry the same \<^verbatim>\<open>cgroup_id\<close>
  value, and the resolution of the first has returned a descriptor. Then no resolution
  of the second in the same run (on any table that still holds what the first entered)
  returns a descriptor; and whenever the second would be resolved on an emptied table,
  it fails in the run with "Duplicate c-group name" for that id, the state left as it
  was.
\<close>

theorem duplicate_cgroup_id_rejected:
  assumes first: "docker_info_init env setting i s = (Inr d1, s1)"
    and later: "htab s1 \<subseteq> htab s2"
    and arr: "json_object_object_get_ex setting ''task_option'' = Some arr"
    and ti: "json_object_array_get_idx arr i = Some ti"
    and tj: "json_object_array_get_idx arr j = Some tj"
    and same: "json_object_object_get_ex ti ''cgroup_id'' = json_object_object_get_ex tj ''cgroup_id''"
  shows "(\<forall>d2 s2'. docker_info_init env setting j s2 \<noteq> (Inr d2, s2')) \<and>
         (\<forall>d2 s2'. docker_info_init env setting j (s2\<lparr>htab := {}\<rparr>) = (Inr d2, s2') \<longrightarrow>
            docker_info_init env setting j s2 = (Inl (Duplicate_cgroup (cgroup_id d1)), s2))"
proof -
  have id: "cgroup_id d = cgroup_id d1"
    if "docker_info_init env setting j s0 = (Inr d, s0')" for d s0 s0'
  proof -
    from success_descriptor [OF that] arr tj
    have a: "cgroup_id d = snd (docker_info_str_value_set env tj ''cgroup_id'' []
                                  (sizeof_cgroup_id env) DOCKER_ERROR_PRINT)"
      by auto
    from success_descriptor [OF first] arr ti
    have b: "cgroup_id d1 = snd (docker_info_str_value_set env ti ''cgroup_id'' []
                                  (sizeof_cgroup_id env) DOCKER_ERROR_PRINT)"
      by auto
    from a b str_value_set_same_key [OF same] show ?thesis by simp
  qed
  have entered: "cgroup_id d1 \<in> htab s2"
    using first later
      docker_info_init_htab [where env = env and setting = setting and index = i
        and s = s and H = "htab s" and d = d1 and s' = s1]
    by (auto split: if_splits)
  have one: "docker_info_init env setting j s2 \<noteq> (Inr d2, s2')" for d2 s2'
  proof
    assume run: "docker_info_init env setting j s2 = (Inr d2, s2')"
    from docker_info_init_htab [where env = env and setting = setting and index = j
        and s = s2 and H = "htab s2" and d = d2 and s' = s2'] run id [OF run] entered
    show False by simp
  qed
  have two: "docker_info_init env setting j s2 = (Inl (Duplicate_cgroup (cgroup_id d1)), s2)"
    if run: "docker_info_init env setting j (s2\<lparr>htab := {}\<rparr>) = (Inr d2, s2')" for d2 s2'
    using docker_info_init_htab [OF run] id [OF run] entered by simp
  from one two show ?thesis by blast
qed

theorem duplicate_cgroup_id_rejected_witness:
  "docker_info_init sample_env
     (sample_setting ''none'' []
        [sample_task ''t0'' ''seq_read'' [], sample_task ''t0'' ''rand_write'' []])
     0 empty_state
   = (Inr (sample_descriptor ''none'' 0), \<lparr> htab = {''t0''}, heap_blocks = 1 \<rparr>)
   \<and> docker_info_init sample_env
     (sample_setting ''none'' []
        [sample_task ''t0'' ''seq_read'' [], sample_task ''t0'' ''rand_write'' []])
     1 \<lparr> htab = {''t0''}, heap_blocks = 1 \<rparr>
   = (Inl (Duplicate_cgroup ''t0''), \<lparr> htab = {''t0''}, heap_blocks = 1 \<rparr>)
   \<and> docker_info_init sample_env
     (sample_setting ''none'' []
        [sample_task ''t0'' ''seq_read'' [], sample_task ''t0'' ''rand_write'' []])
     1 \<lparr> htab = {}, heap_blocks = 1 \<rparr>
   = (Inr ((sample_descriptor ''none'' 0)\<lparr>trace_data_path := ''rand_write''\<rparr>),
      \<lparr> htab = {''t0''}, heap_blocks = 2 \<rparr>)"
proof -
  let ?t0 = "sample_task ''t0'' ''seq_read'' []"
  let ?t1 = "sample_task ''t0'' ''rand_write'' []"
  let ?setting = "sample_setting ''none'' [] [?t0, ?t1]"
  let ?s1 = "\<lparr> htab = {''t0''}, heap_blocks = 1 \<rparr>"
  have first: "docker_info_init sample_env ?setting 0 empty_state
     = (Inr (sample_descriptor ''none'' 0), ?s1)"
    by (simp add: sample_defs model_defs Let_def)
  have reset: "docker_info_init sample_env ?setting 1 (?s1\<lparr>htab := {}\<rparr>)
     = (Inr ((sample_descriptor ''none'' 0)\<lparr>trace_data_path := ''rand_write''\<rparr>),
        \<lparr> htab = {''t0''}, heap_blocks = 2 \<rparr>)"
    by (simp add: sample_defs model_defs Let_def)
  have a: "json_object_object_get_ex ?setting ''task_option'' = Some (JArray [?t0, ?t1])"
    by (simp add: sample_defs)
  have i: "json_object_array_get_idx (JArray [?t0, ?t1]) 0 = Some ?t0"
    by (simp add: sample_defs)
  have j: "json_object_array_get_idx (JArray [?t0, ?t1]) 1 = Some ?t1"
    by (simp add: sample_defs)
  have same: "json_object_object_get_ex ?t0 ''cgroup_id'' = json_object_object_get_ex ?t1 ''cgroup_id''"
    by (simp add: sample_defs)
  from duplicate_cgroup_id_rejected [OF first subset_refl a i j same] first reset
  show ?thesis by (simp add: sample_descriptor_def)
qed

text \<open>
  The claim as first stated fails: an id is entered only by a resolution that returns
  a descriptor. Here the first of two entries with the id \<^verbatim>\<open>t0\<close> names a trace file
  that does not exist and fails before line 233, and the second is then resolved on
  the same table, with no reset.
\<close>

theorem duplicate_after_failed_first:
  "docker_info_init sample_env
     (sample_setting ''none'' []
        [sample_task ''t0'' ''/tmp/missing.dat'' [], sample_task ''t0'' ''seq_read'' []])
     0 empty_state
   = (Inl (Trace_data_not_exist ''/tmp/missing.dat''), empty_state)
   \<and> docker_info_init sample_env
     (sample_setting ''none'' []
        [sample_task ''t0'' ''/tmp/missing.dat'' [], sample_task ''t0'' ''seq_read'' []])
     1 empty_state
   = (Inr (sample_descriptor ''none'' 0), \<lparr> htab = {''t0''}, heap_blocks = 1 \<rparr>)"
  by (simp add: sample_defs model_defs Let_def)

text \<open>
  C2, as amended. When the global tier has passed and the effective scheduler of the
  task (the task entry's \<^verbatim>\<open>scheduler\<close> if it has one, otherwise the global one) is
  supported and takes a weight, \<^verbatim>\<open>docker_info_init\<close> fails with "Not exist" for
  \<^verbatim>\<open>weight\<close> exactly when the task entry has no key \<^verbatim>\<open>weight\<close>. Whether the global
  object has the key plays no part.
\<close>

theorem weight_required_in_task_entry:
  assumes "docker_info_init_global env setting s = (Inr info, s1)"
    and "json_object_object_get_ex setting ''task_option'' = Some arr"
    and "json_is_array arr"
    and "json_object_array_get_idx arr index = Some tmp"
    and "0 \<le> docker_valid_scheduler_test env (scheduler (task_overrides env tmp info))"
    and "docker_has_weight_scheduler env
           (docker_valid_scheduler_test env (scheduler (task_overrides env tmp info)))"
  shows "(fst (docker_info_init env setting index s) = Inl (Not_exist [''weight''])
          \<longleftrightarrow> json_object_object_get_ex tmp ''weight'' = None)
       \<and> (json_object_object_get_ex tmp ''weight'' = None
          \<longrightarrow> docker_info_init env setting index s = (Inl (Not_exist [''weight'']), s))"
  using assms(5,6)
  by (simp add: docker_info_init_after_global [OF assms(1)] checks_located [OF assms(2,3,4)]
      not_less [symmetric])

theorem weight_required_in_task_entry_witness:
  "docker_info_init_global sample_env
     (sample_setting ''none'' [(''weight'', JInt 100)]
        [sample_task ''t0'' ''seq_read'' [(''scheduler'', JString ''bfq''), (''weight'', JInt 200)]])
     empty_state
   = (Inr (sample_global_info ''none'' 100 []), \<lparr> htab = {}, heap_blocks = 1 \<rparr>)
   \<and> scheduler (task_overrides sample_env
        (sample_task ''t0'' ''seq_read'' [(''scheduler'', JString ''bfq''), (''weight'', JInt 200)])
        (sample_global_info ''none'' 100 [])) = ''bfq''
   \<and> docker_has_weight_scheduler sample_env (docker_valid_scheduler_test sample_env ''bfq'')
   \<and> json_object_object_get_ex
        (sample_task ''t0'' ''seq_read'' [(''scheduler'', JString ''bfq''), (''weight'', JInt 200)])
        ''weight'' = Some (JInt 200)
   \<and> fst (docker_info_init sample_env
     (sample_setting ''none'' [(''weight'', JInt 100)]
        [sample_task ''t0'' ''seq_read'' [(''scheduler'', JString ''bfq''), (''weight'', JInt 200)]])
     0 empty_state) \<noteq> Inl (Not_exist [''weight''])
   \<and> docker_info_init sample_env
     (sample_setting ''none'' [(''weight'', JInt 100)]
        [sample_task ''t0'' ''seq_read'' [(''scheduler'', JString ''bfq''), (''weight'', JInt 200)]])
     0 empty_state
     = (Inr (sample_descriptor ''bfq'' 200), \<lparr> htab = {''t0''}, heap_blocks = 1 \<rparr>)"
proof -
  let ?task = "sample_task ''t0'' ''seq_read'' [(''scheduler'', JString ''bfq''), (''weight'', JInt 200)]"
  let ?setting = "sample_setting ''none'' [(''weight'', JInt 100)] [?task]"
  have g: "docker_info_init_global sample_env ?setting empty_state
     = (Inr (sample_global_info ''none'' 100 []), \<lparr> htab = {}, heap_blocks = 1 \<rparr>)"
    by (simp add: sample_defs model_defs Let_def)
  have a: "json_object_object_get_ex ?setting ''task_option'' = Some (JArray [?task])"
    by (simp add: sample_defs)
  have j: "json_is_array (JArray [?task])" by simp
  have i: "json_object_array_get_idx (JArray [?task]) 0 = Some ?task"
    by (simp add: sample_defs)
  have sc: "scheduler (task_overrides sample_env ?task (sample_global_info ''none'' 100 [])) = ''bfq''"
    by (simp add: sample_defs model_defs Let_def)
  have v: "0 \<le> docker_valid_scheduler_test sample_env
        (scheduler (task_overrides sample_env ?task (sample_global_info ''none'' 100 [])))"
    unfolding sc by (simp add: sample_defs)
  have w: "docker_has_weight_scheduler sample_env (docker_valid_scheduler_test sample_env
        (scheduler (task_overrides sample_env ?task (sample_global_info ''none'' 100 []))))"
    unfolding sc by (simp add: sample_defs)
  have k: "json_object_object_get_ex ?task ''weight'' = Some (JInt 200)"
    by (simp add: sample_defs)
  have run: "docker_info_init sample_env ?setting 0 empty_state
     = (Inr (sample_descriptor ''bfq'' 200), \<lparr> htab = {''t0''}, heap_blocks = 1 \<rparr>)"
    by (simp add: sample_defs model_defs Let_def)
  from weight_required_in_task_entry [OF g a j i v w] g sc w k run
  show ?thesis by simp
qed

text \<open>
  The claim as first stated fails: with a weight at the global tier only, resolution
  under the weight-aware scheduler \<^verbatim>\<open>bfq\<close> fails with "Not exist" for \<^verbatim>\<open>weight\<close>.
\<close>

theorem weight_in_global_tier_only:
  "docker_info_init sample_env
     (sample_setting ''bfq'' [(''weight'', JInt 100)] [sample_task ''t0'' ''seq_read'' []])
     0 empty_state
   = (Inl (Not_exist [''weight'']), empty_state)"
  by (simp add: sample_defs model_defs Let_def)

text \<open>
  C3. The claim describes two members with a destination each. The code writes the
  value of \<^verbatim>\<open>trace_repeat\<close> to \<^verbatim>\<open>&info->weight\<close> at both tiers: with
  \<^verbatim>\<open>trace_repeat\<close> 5 in the global object, or 7 in the task entry, and no weight
  anywhere, the returned descriptor has \<^verbatim>\<open>trace_repeat\<close> 1 and \<^verbatim>\<open>weight\<close> 5, or 7.
\<close>

theorem trace_repeat_written_to_weight:
  "docker_info_init sample_env
     (sample_setting ''none'' [(''trace_repeat'', JInt 5)] [sample_task ''t0'' ''seq_read'' []])
     0 empty_state
   = (Inr (sample_descriptor ''none'' 5), \<lparr> htab = {''t0''}, heap_blocks = 1 \<rparr>)
   \<and> trace_repeat (sample_descriptor ''none'' 5) = 1
   \<and> weight (sample_descriptor ''none'' 5) = 5
   \<and> docker_info_init sample_env
     (sample_setting ''none'' [] [sample_task ''t0'' ''seq_read'' [(''trace_repeat'', JInt 7)]])
     0 empty_state
   = (Inr (sample_descriptor ''none'' 7), \<lparr> htab = {''t0''}, heap_blocks = 1 \<rparr>)
   \<and> trace_repeat (sample_descriptor ''none'' 7) = 1
   \<and> weight (sample_descriptor ''none'' 7) = 7"
proof -
  have g: "docker_info_init sample_env
     (sample_setting ''none'' [(''trace_repeat'', JInt 5)] [sample_task ''t0'' ''seq_read'' []])
     0 empty_state
   = (Inr (sample_descriptor ''none'' 5), \<lparr> htab = {''t0''}, heap_blocks = 1 \<rparr>)"
    by (simp add: sample_defs model_defs Let_def)
  have t: "docker_info_init sample_env
     (sample_setting ''none'' [] [sample_task ''t0'' ''seq_read'' [(''trace_repeat'', JInt 7)]])
     0 empty_state
   = (Inr (sample_descriptor ''none'' 7), \<lparr> htab = {''t0''}, heap_blocks = 1 \<rparr>)"
    by (simp add: sample_defs model_defs Let_def)
  from trace_repeat_never_set [OF g] trace_repeat_never_set [OF t] g t
  show ?thesis by (simp add: sample_descriptor_def)
qed

text \<open>
  C4. The claim asks that the executable path of a returned descriptor has been
  found, as given or under \<^verbatim>\<open>/usr/bin/\<close>. The code checks the path of the global
  object only: a task entry's \<^verbatim>\<open>trace_replay_path\<close> replaces the checked path at line
  173 and no \<^verbatim>\<open>lstat\<close> follows. Here the task entry names a tool that exists at
  neither place, and the descriptor is returned with that path.
\<close>

theorem unchecked_task_replay_path:
  "docker_info_init sample_env
     (sample_setting ''none'' []
        [sample_task ''t0'' ''seq_read'' [(''trace_replay_path'', JString ''no-such-tool'')]])
     0 empty_state
   = (Inr ((sample_descriptor ''none'' 0)\<lparr>trace_replay_path := ''no-such-tool''\<rparr>),
      \<lparr> htab = {''t0''}, heap_blocks = 1 \<rparr>)
   \<and> \<not> lstat_ok sample_env ''no-such-tool''
   \<and> \<not> lstat_ok sample_env ''/usr/bin/no-such-tool''"
  by (simp add: sample_defs model_defs Let_def)

text \<open>
  What holds of the path of the global object, when the descriptor is allocated and
  the seven mandatory keys are there. If \<^verbatim>\<open>lstat\<close> finds the stored path \<open>g\<close>, the
  global tier passes with \<open>g\<close> unchanged (the scheduler being supported). If it does
  not, and the buffer is allocated and the prefixed path fits the array, then the
  global tier passes with \<^verbatim>\<open>/usr/bin/\<close> put before \<open>g\<close> when that path is found, and
  \<^verbatim>\<open>docker_info_init\<close> fails with "Cannot find the trace_replay_path" when it is not.
  A returned descriptor has the path so resolved whenever the task entry does not
  override it.
\<close>

theorem replay_path_fallback:
  assumes "malloc_info env"
    and "\<forall>k \<in> set mandatory_keys. json_object_object_get_ex setting k \<noteq> None"
    and "g = snd (docker_info_str_value_set env setting ''trace_replay_path'' []
                    (sizeof_trace_replay_path env) DOCKER_ERROR_PRINT)"
    and "sched = snd (docker_info_str_value_set env setting ''scheduler'' []
                    (sizeof_scheduler env) DOCKER_ERROR_PRINT)"
  shows "(lstat_ok env g \<and> 0 \<le> docker_valid_scheduler_test env sched \<longrightarrow>
            (\<exists>info. docker_info_init_global env setting s = (Inr info, malloc_block s)
                    \<and> trace_replay_path info = g))
       \<and> (\<not> lstat_ok env g \<and> malloc_buffer env
            \<and> length (''/usr/bin/'' @ g) < sizeof_trace_replay_path env
            \<and> lstat_ok env (''/usr/bin/'' @ g) \<and> 0 \<le> docker_valid_scheduler_test env sched \<longrightarrow>
            (\<exists>info. docker_info_init_global env setting s = (Inr info, malloc_block s)
                    \<and> trace_replay_path info = ''/usr/bin/'' @ g))
       \<and> (\<not> lstat_ok env g \<and> malloc_buffer env
            \<and> length (''/usr/bin/'' @ g) < sizeof_trace_replay_path env
            \<and> \<not> lstat_ok env (''/usr/bin/'' @ g) \<longrightarrow>
            docker_info_init env setting index s
              = (Inl (Cannot_find_trace_replay (''/usr/bin/'' @ g)), s))
       \<and> (\<forall>d s' arr tmp. docker_info_init env setting index s = (Inr d, s')
            \<and> json_object_object_get_ex setting ''task_option'' = Some arr
            \<and> json_object_array_get_idx arr index = Some tmp
            \<and> json_object_object_get_ex tmp ''trace_replay_path'' = None \<longrightarrow>
            trace_replay_path d = (if lstat_ok env g then g else ''/usr/bin/'' @ g))"
proof -
  let ?info = "snd (pull_mandatory env setting (memset_zero\<lparr>trace_repeat := 1\<rparr>))"
  from assms(2) have ret: "fst (pull_mandatory env setting (memset_zero\<lparr>trace_repeat := 1\<rparr>)) = 0"
    by (simp add: pull_mandatory_ret)
  have gp: "trace_replay_path ?info = g" and sp: "scheduler ?info = sched"
    by (simp_all add: pull_mandatory_stores assms(3,4) memset_zero_def)
  have glob: "docker_info_init_global env setting s =
     (if \<not> lstat_ok env g \<and> \<not> malloc_buffer env then (Inl Assertion_failure, malloc_block s)
      else if \<not> lstat_ok env g \<and> \<not> length (''/usr/bin/'' @ g) < sizeof_trace_replay_path env
      then (Inl Undefined, malloc_block s)
      else if \<not> lstat_ok env g \<and> \<not> lstat_ok env (''/usr/bin/'' @ g)
      then (Inl (Cannot_find_trace_replay (''/usr/bin/'' @ g)), s)
      else if docker_valid_scheduler_test env sched < 0
      then (Inl (Unsupported_scheduler sched), s)
      else (Inr (pull_optional env setting
                   (if lstat_ok env g then ?info
                    else ?info\<lparr>trace_replay_path := ''/usr/bin/'' @ g\<rparr>)), malloc_block s))"
    using assms(1) ret gp sp
    by (simp add: docker_info_init_global_def Let_def free_malloc)
  have a: "\<exists>info. docker_info_init_global env setting s = (Inr info, malloc_block s)
                    \<and> trace_replay_path info = g"
    if "lstat_ok env g \<and> 0 \<le> docker_valid_scheduler_test env sched"
    using that gp by (simp add: glob pull_keeps not_less [symmetric])
  have b: "\<exists>info. docker_info_init_global env setting s = (Inr info, malloc_block s)
                    \<and> trace_replay_path info = ''/usr/bin/'' @ g"
    if "\<not> lstat_ok env g \<and> malloc_buffer env
            \<and> length (''/usr/bin/'' @ g) < sizeof_trace_replay_path env
            \<and> lstat_ok env (''/usr/bin/'' @ g) \<and> 0 \<le> docker_valid_scheduler_test env sched"
    using that by (simp add: glob pull_keeps not_less [symmetric])
  have c: "docker_info_init env setting index s
              = (Inl (Cannot_find_trace_replay (''/usr/bin/'' @ g)), s)"
    if "\<not> lstat_ok env g \<and> malloc_buffer env
            \<and> length (''/usr/bin/'' @ g) < sizeof_trace_replay_path env
            \<and> \<not> lstat_ok env (''/usr/bin/'' @ g)"
    using that by (simp add: docker_info_init_def glob)
  have d: "trace_replay_path d = (if lstat_ok env g then g else ''/usr/bin/'' @ g)"
    if h: "docker_info_init env setting index s = (Inr d, s')
            \<and> json_object_object_get_ex setting ''task_option'' = Some arr
            \<and> json_object_array_get_idx arr index = Some tmp
            \<and> json_object_object_get_ex tmp ''trace_replay_path'' = None" for d s' arr tmp
  proof -
    from h have run: "docker_info_init env setting index s = (Inr d, s')" by simp
    from success_descriptor [OF run] h obtain info s1 where
      g1: "docker_info_init_global env setting s = (Inr info, s1)"
      and d1: "trace_replay_path d = trace_replay_path (task_overrides env tmp info)"
      by auto
    from h have "trace_replay_path (task_overrides env tmp info) = trace_replay_path info"
      by (simp add: task_overrides_def Let_def docker_info_str_value_set_def)
    moreover from g1 gp have "trace_replay_path info = (if lstat_ok env g then g else ''/usr/bin/'' @ g)"
      by (auto simp: glob pull_keeps split: if_splits)
    ultimately show ?thesis using d1 by simp
  qed
  show ?thesis
    by (intro conjI impI allI) (rule a b c d, assumption)+
qed

text \<open>The sample configuration takes the second of these cases.\<close>

lemma replay_path_fallback_sample:
  "\<not> lstat_ok sample_env ''trace-replay''
   \<and> lstat_ok sample_env (''/usr/bin/'' @ ''trace-replay'')
   \<and> docker_info_init_global sample_env
        (sample_setting ''none'' [] [sample_task ''t0'' ''seq_read'' []]) empty_state
      = (Inr (sample_global_info ''none'' 0 []), malloc_block empty_state)
   \<and> trace_replay_path (sample_global_info ''none'' 0 []) = ''/usr/bin/'' @ ''trace-replay''
   \<and> trace_replay_path (sample_descriptor ''none'' 0) = ''/usr/bin/'' @ ''trace-replay''"
proof -
  let ?setting = "sample_setting ''none'' [] [sample_task ''t0'' ''seq_read'' []]"
  have m: "malloc_info sample_env" by (simp add: sample_defs)
  have k: "\<forall>k \<in> set mandatory_keys. json_object_object_get_ex ?setting k \<noteq> None"
    by (simp add: sample_defs mandatory_keys_def)
  have g: "''trace-replay'' = snd (docker_info_str_value_set sample_env ?setting
             ''trace_replay_path'' [] (sizeof_trace_replay_path sample_env) DOCKER_ERROR_PRINT)"
    by (simp add: sample_defs model_defs)
  have sc: "''none'' = snd (docker_info_str_value_set sample_env ?setting
             ''scheduler'' [] (sizeof_scheduler sample_env) DOCKER_ERROR_PRINT)"
    by (simp add: sample_defs model_defs)
  have e: "\<not> lstat_ok sample_env ''trace-replay''"
    "lstat_ok sample_env (''/usr/bin/'' @ ''trace-replay'')"
    "malloc_buffer sample_env"
    "length (''/usr/bin/'' @ ''trace-replay'') < sizeof_trace_replay_path sample_env"
    "0 \<le> docker_valid_scheduler_test sample_env ''none''"
    by (simp_all add: sample_defs)
  from replay_path_fallback [OF m k g sc, of empty_state 0] e
    sample_global_run [of "''none''" "[sample_task ''t0'' ''seq_read'' []]"]
  show ?thesis
    by (simp add: sample_global_info_def sample_descriptor_def malloc_block_def empty_state_def)
qed

text \<open>
  The redirect writes with \<^verbatim>\<open>sprintf\<close>, without the bound that the setters pass to
  \<^verbatim>\<open>snprintf\<close>: a missing tool whose name has 58 characters does not fit the sample
  array of 64 bytes once prefixed.
\<close>

lemma replay_path_overrun:
  "length ''a-trace-replay-tool-whose-name-is-far-too-long-to-redirect'' = 58
   \<and> docker_info_init sample_env
     (JObject [(''time'', JInt 60), (''q_depth'', JInt 32), (''nr_thread'', JInt 4),
               (''prefix_cgroup_name'', JString ''bench_''), (''scheduler'', JString ''none''),
               (''device'', JString ''/dev/sdb''),
               (''trace_replay_path'',
                JString ''a-trace-replay-tool-whose-name-is-far-too-long-to-redirect''),
               (''task_option'', JArray [sample_task ''t0'' ''seq_read'' []])])
     0 empty_state
   = (Inl Undefined, \<lparr> htab = {}, heap_blocks = 1 \<rparr>)"
  by (simp add: sample_defs model_defs Let_def)

text \<open>
  C5. \<^verbatim>\<open>docker_is_synth_type\<close> answers \<^verbatim>\<open>DOCKER_SYNTH\<close> exactly for the six tags,
  compared character by character, and \<^verbatim>\<open>DOCKER_NOT_SYNTH\<close> for every other string.
  When the trace source stored from the task entry is one of the tags, the file system
  is not consulted for it: \<^verbatim>\<open>__docker_info_init\<close> gives the same result whatever
  \<^verbatim>\<open>lstat\<close> would answer, and so does \<^verbatim>\<open>docker_info_init\<close> on every file system on
  which the global tier finds the executable the same way.
\<close>

theorem synth_classifier:
  "(docker_is_synth_type p = DOCKER_SYNTH \<longleftrightarrow>
      p \<in> {''rand_read'', ''rand_write'', ''rand_mixed'', ''seq_read'', ''seq_write'', ''seq_mixed''})
   \<and> (docker_is_synth_type p = DOCKER_NOT_SYNTH \<longleftrightarrow>
      p \<notin> {''rand_read'', ''rand_write'', ''rand_mixed'', ''seq_read'', ''seq_write'', ''seq_mixed''})
   \<and> (json_object_object_get_ex setting ''task_option'' = Some arr
        \<and> json_object_array_get_idx arr index = Some tmp
        \<and> docker_is_synth_type
             (snd (docker_info_str_value_set env tmp ''trace_data_path'' (trace_data_path info)
                     (sizeof_trace_data_path env) DOCKER_ERROR_PRINT)) = DOCKER_SYNTH
      \<longrightarrow> uu_docker_info_init (env\<lparr>lstat_ok := f\<rparr>) setting index info s
          = uu_docker_info_init env setting index info s)
   \<and> (json_object_object_get_ex setting ''task_option'' = Some arr
        \<and> json_object_array_get_idx arr index = Some tmp
        \<and> docker_is_synth_type
             (snd (docker_info_str_value_set env tmp ''trace_data_path'' (trace_data_path info)
                     (sizeof_trace_data_path env) DOCKER_ERROR_PRINT)) = DOCKER_SYNTH
        \<and> docker_info_init_global env setting s = (Inr info, s1)
        \<and> docker_info_init_global (env\<lparr>lstat_ok := f\<rparr>) setting s = (Inr info, s1)
      \<longrightarrow> docker_info_init (env\<lparr>lstat_ok := f\<rparr>) setting index s
          = docker_info_init env setting index s)"
proof -
  have a: "docker_is_synth_type p = DOCKER_SYNTH \<longleftrightarrow>
      p \<in> {''rand_read'', ''rand_write'', ''rand_mixed'', ''seq_read'', ''seq_write'', ''seq_mixed''}"
    by (simp add: docker_is_synth_type_def global_synth_type_def)
  have b: "docker_is_synth_type p = DOCKER_NOT_SYNTH \<longleftrightarrow>
      p \<notin> {''rand_read'', ''rand_write'', ''rand_mixed'', ''seq_read'', ''seq_write'', ''seq_mixed''}"
    unfolding a [symmetric] by (cases "docker_is_synth_type p") simp_all
  have c: "uu_docker_info_init (env\<lparr>lstat_ok := f\<rparr>) setting index info s
          = uu_docker_info_init env setting index info s"
    if "json_object_object_get_ex setting ''task_option'' = Some arr
        \<and> json_object_array_get_idx arr index = Some tmp
        \<and> docker_is_synth_type
             (snd (docker_info_str_value_set env tmp ''trace_data_path'' (trace_data_path info)
                     (sizeof_trace_data_path env) DOCKER_ERROR_PRINT)) = DOCKER_SYNTH" for s
    unfolding uu_docker_info_init_def uu_docker_info_init_checks_def task_overrides_lstat
      int_value_set_lstat str_value_set_lstat
    using that
    by (simp add: task_overrides_keeps register_cgroup_def Let_def del: if_split cong: if_cong)
  have d: "docker_info_init (env\<lparr>lstat_ok := f\<rparr>) setting index s
          = docker_info_init env setting index s"
    if h: "json_object_object_get_ex setting ''task_option'' = Some arr
        \<and> json_object_array_get_idx arr index = Some tmp
        \<and> docker_is_synth_type
             (snd (docker_info_str_value_set env tmp ''trace_data_path'' (trace_data_path info)
                     (sizeof_trace_data_path env) DOCKER_ERROR_PRINT)) = DOCKER_SYNTH
        \<and> docker_info_init_global env setting s = (Inr info, s1)
        \<and> docker_info_init_global (env\<lparr>lstat_ok := f\<rparr>) setting s = (Inr info, s1)"
  proof -
    from h have "uu_docker_info_init (env\<lparr>lstat_ok := f\<rparr>) setting index info s1
          = uu_docker_info_init env setting index info s1"
      by (intro c) simp
    with h show ?thesis by (simp add: docker_info_init_def)
  qed
  show ?thesis
    by (intro conjI impI) (rule a b c d, assumption?)+
qed

theorem synth_classifier_witness:
  "docker_is_synth_type ''seq_read'' = DOCKER_SYNTH
   \<and> docker_is_synth_type ''SEQ_READ'' = DOCKER_NOT_SYNTH
   \<and> docker_is_synth_type ''/tmp/trace.dat'' = DOCKER_NOT_SYNTH
   \<and> uu_docker_info_init (sample_env\<lparr>lstat_ok := (\<lambda>p. False)\<rparr>)
         (sample_setting ''none'' [] [sample_task ''t0'' ''seq_read'' []]) 0
         (sample_global_info ''none'' 0 []) empty_state
       = uu_docker_info_init sample_env
         (sample_setting ''none'' [] [sample_task ''t0'' ''seq_read'' []]) 0
         (sample_global_info ''none'' 0 []) empty_state
   \<and> docker_info_init (sample_env\<lparr>lstat_ok := (\<lambda>p. p = ''/usr/bin/trace-replay'')\<rparr>)
         (sample_setting ''none'' [] [sample_task ''t0'' ''seq_read'' []]) 0 empty_state
       = docker_info_init sample_env
         (sample_setting ''none'' [] [sample_task ''t0'' ''seq_read'' []]) 0 empty_state
   \<and> docker_info_init sample_env
         (sample_setting ''none'' [] [sample_task ''t0'' ''seq_read'' []]) 0 empty_state
       = (Inr (sample_descriptor ''none'' 0), \<lparr> htab = {''t0''}, heap_blocks = 1 \<rparr>)"
proof -
  let ?task = "sample_task ''t0'' ''seq_read'' []"
  let ?setting = "sample_setting ''none'' [] [?task]"
  let ?info = "sample_global_info ''none'' 0 []"
  have pre: "json_object_object_get_ex ?setting ''task_option'' = Some (JArray [?task])"
    "json_object_array_get_idx (JArray [?task]) 0 = Some ?task"
    "docker_is_synth_type
       (snd (docker_info_str_value_set sample_env ?task ''trace_data_path''
               (trace_data_path ?info) (sizeof_trace_data_path sample_env) DOCKER_ERROR_PRINT))
     = DOCKER_SYNTH"
    by (simp_all add: sample_defs model_defs)
  have g: "docker_info_init_global sample_env ?setting empty_state
     = (Inr ?info, \<lparr> htab = {}, heap_blocks = 1 \<rparr>)"
    by (simp add: sample_global_run)
  show ?thesis
    using synth_classifier [where p = "''seq_read''"]
      synth_classifier [where p = "''SEQ_READ''"]
      synth_classifier [where p = "''/tmp/trace.dat''"]
      synth_classifier [where env = sample_env and setting = ?setting
        and arr = "JArray [?task]" and index = 0 and tmp = ?task and info = ?info
        and f = "\<lambda>p. False" and s = empty_state]
      synth_classifier [where env = sample_env and setting = ?setting
        and arr = "JArray [?task]" and index = 0 and tmp = ?task and info = ?info
        and f = "\<lambda>p. p = ''/usr/bin/trace-replay''" and s = empty_state
        and ?s1.0 = "\<lparr> htab = {}, heap_blocks = 1 \<rparr>"]
      pre g scenario_run_without_trace_files scenario_run
    by simp
qed

text \<open>
  C6. The global tier has passed, the task entry is located and passes the scheduler
  and weight checks, and it has both \<^verbatim>\<open>trace_data_path\<close> and \<^verbatim>\<open>cgroup_id\<close>. When the
  stored trace source \<open>p\<close> is not a synthetic tag, \<^verbatim>\<open>docker_info_init\<close> fails with
  "Trace data file not exist" exactly when \<^verbatim>\<open>lstat\<close> fails on \<open>p\<close>; when the file
  exists, the result is the registration of the descriptor as the overrides left it,
  with \<open>p\<close> as its trace source.
\<close>

theorem trace_file_checked:
  assumes "docker_info_init_global env setting s = (Inr info, s1)"
    and "json_object_object_get_ex setting ''task_option'' = Some arr"
    and "json_is_array arr"
    and "json_object_array_get_idx arr index = Some tmp"
    and "0 \<le> docker_valid_scheduler_test env (scheduler (task_overrides env tmp info))"
    and "docker_has_weight_scheduler env
           (docker_valid_scheduler_test env (scheduler (task_overrides env tmp info)))
         \<longrightarrow> json_object_object_get_ex tmp ''weight'' \<noteq> None"
    and "json_object_object_get_ex tmp ''trace_data_path'' \<noteq> None"
    and "json_object_object_get_ex tmp ''cgroup_id'' \<noteq> None"
    and "p = snd (docker_info_str_value_set env tmp ''trace_data_path''
                    (trace_data_path info) (sizeof_trace_data_path env) DOCKER_ERROR_PRINT)"
    and "docker_is_synth_type p = DOCKER_NOT_SYNTH"
  shows "(fst (docker_info_init env setting index s) = Inl (Trace_data_not_exist p)
          \<longleftrightarrow> \<not> lstat_ok env p)
       \<and> (\<not> lstat_ok env p \<longrightarrow>
            docker_info_init env setting index s = (Inl (Trace_data_not_exist p), s))
       \<and> (lstat_ok env p \<longrightarrow>
            docker_info_init env setting index s =
              (if snd (docker_info_str_value_set env tmp ''cgroup_id'' []
                         (sizeof_cgroup_id env) DOCKER_ERROR_PRINT) \<in> htab s
               then (Inl (Duplicate_cgroup
                       (snd (docker_info_str_value_set env tmp ''cgroup_id'' []
                               (sizeof_cgroup_id env) DOCKER_ERROR_PRINT))), s)
               else (Inr ((task_overrides env tmp info)
                       \<lparr>weight := snd (docker_info_int_value_set env tmp ''weight''
                                         (weight (task_overrides env tmp info)) DOCKER_PRINT_NONE),
                        trace_data_path := p,
                        cgroup_id := snd (docker_info_str_value_set env tmp ''cgroup_id'' []
                                            (sizeof_cgroup_id env) DOCKER_ERROR_PRINT),
                        ppid := getpid env, mqid := - 1, semid := - 1, shmid := - 1,
                        next_ptr := None\<rparr>),
                     (malloc_block s)\<lparr>htab := insert
                        (snd (docker_info_str_value_set env tmp ''cgroup_id'' []
                                (sizeof_cgroup_id env) DOCKER_ERROR_PRINT)) (htab s)\<rparr>)))"
  using assms(5-10) global_success_fields(1) [OF assms(1)]
  by (simp add: docker_info_init_after_global [OF assms(1)] checks_located [OF assms(2,3,4)]
      not_less [symmetric])

theorem trace_file_checked_witness:
  "docker_is_synth_type ''/tmp/missing.dat'' = DOCKER_NOT_SYNTH
   \<and> \<not> lstat_ok sample_env ''/tmp/missing.dat''
   \<and> docker_info_init sample_env
        (sample_setting ''none'' [] [sample_task ''t0'' ''/tmp/missing.dat'' []]) 0 empty_state
      = (Inl (Trace_data_not_exist ''/tmp/missing.dat''), empty_state)
   \<and> docker_is_synth_type ''/tmp/trace.dat'' = DOCKER_NOT_SYNTH
   \<and> lstat_ok sample_env ''/tmp/trace.dat''
   \<and> docker_info_init sample_env
        (sample_setting ''none'' [] [sample_task ''t0'' ''/tmp/trace.dat'' []]) 0 empty_state
      = (Inr ((sample_descriptor ''none'' 0)\<lparr>trace_data_path := ''/tmp/trace.dat''\<rparr>),
         \<lparr> htab = {''t0''}, heap_blocks = 1 \<rparr>)"
proof -
  have inst: "(fst (docker_info_init sample_env
                  (sample_setting ''none'' [] [sample_task ''t0'' path []]) 0 empty_state)
               = Inl (Trace_data_not_exist path)) = (\<not> lstat_ok sample_env path)"
    if len: "length path < 64" and ns: "docker_is_synth_type path = DOCKER_NOT_SYNTH" for path
  proof -
    let ?task = "sample_task ''t0'' path []"
    let ?setting = "sample_setting ''none'' [] [?task]"
    have g: "docker_info_init_global sample_env ?setting empty_state
       = (Inr (sample_global_info ''none'' 0 []), \<lparr> htab = {}, heap_blocks = 1 \<rparr>)"
      by (simp add: sample_global_run)
    have a: "json_object_object_get_ex ?setting ''task_option'' = Some (JArray [?task])"
      by (simp add: sample_defs)
    have j: "json_is_array (JArray [?task])" by simp
    have i: "json_object_array_get_idx (JArray [?task]) 0 = Some ?task"
      by (simp add: sample_defs)
    have v: "0 \<le> docker_valid_scheduler_test sample_env
        (scheduler (task_overrides sample_env ?task (sample_global_info ''none'' 0 [])))"
      by (simp add: sample_defs model_defs Let_def)
    have w: "docker_has_weight_scheduler sample_env (docker_valid_scheduler_test sample_env
        (scheduler (task_overrides sample_env ?task (sample_global_info ''none'' 0 []))))
       \<longrightarrow> json_object_object_get_ex ?task ''weight'' \<noteq> None"
      by (simp add: sample_defs model_defs Let_def)
    have k: "json_object_object_get_ex ?task ''trace_data_path'' \<noteq> None"
      "json_object_object_get_ex ?task ''cgroup_id'' \<noteq> None"
      by (simp_all add: sample_defs)
    have p: "path = snd (docker_info_str_value_set sample_env ?task ''trace_data_path''
        (trace_data_path (sample_global_info ''none'' 0 []))
        (sizeof_trace_data_path sample_env) DOCKER_ERROR_PRINT)"
      using len by (simp add: sample_defs model_defs)
    from trace_file_checked [OF g a j i v w k p ns] show ?thesis by blast
  qed
  have n: "docker_is_synth_type ''/tmp/missing.dat'' = DOCKER_NOT_SYNTH"
    "docker_is_synth_type ''/tmp/trace.dat'' = DOCKER_NOT_SYNTH"
    by (simp_all add: model_defs)
  have e: "\<not> lstat_ok sample_env ''/tmp/missing.dat''" "lstat_ok sample_env ''/tmp/trace.dat''"
    by (simp_all add: sample_defs)
  have r: "docker_info_init sample_env
        (sample_setting ''none'' [] [sample_task ''t0'' ''/tmp/trace.dat'' []]) 0 empty_state
      = (Inr ((sample_descriptor ''none'' 0)\<lparr>trace_data_path := ''/tmp/trace.dat''\<rparr>),
         \<lparr> htab = {''t0''}, heap_blocks = 1 \<rparr>)"
    by (simp add: sample_defs model_defs Let_def)
  from inst [OF _ n(1)] inst [OF _ n(2)] n e r failed_task_run
  show ?thesis by simp
qed

text \<open>
  C7, as amended. Both keys are mandatory in every task entry. When the global tier has
  passed and the task entry passes the scheduler and weight checks, a task entry
  without \<^verbatim>\<open>trace_data_path\<close> fails with "Not exist" for that key and one without
  \<^verbatim>\<open>cgroup_id\<close> fails with "Not exist" for that key, whatever the global object holds;
  and every returned descriptor has both members from the task entry.
\<close>

theorem task_keys_always_mandatory:
  assumes "docker_info_init_global env setting s = (Inr info, s1)"
    and "json_object_object_get_ex setting ''task_option'' = Some arr"
    and "json_is_array arr"
    and "json_object_array_get_idx arr index = Some tmp"
    and "0 \<le> docker_valid_scheduler_test env (scheduler (task_overrides env tmp info))"
    and "docker_has_weight_scheduler env
           (docker_valid_scheduler_test env (scheduler (task_overrides env tmp info)))
         \<longrightarrow> json_object_object_get_ex tmp ''weight'' \<noteq> None"
  shows "(json_object_object_get_ex tmp ''trace_data_path'' = None \<longrightarrow>
            docker_info_init env setting index s = (Inl (Not_exist [''trace_data_path'']), s))
       \<and> (json_object_object_get_ex tmp ''trace_data_path'' \<noteq> None
          \<and> json_object_object_get_ex tmp ''cgroup_id'' = None \<longrightarrow>
            docker_info_init env setting index s = (Inl (Not_exist [''cgroup_id'']), s))
       \<and> (\<forall>d s'. docker_info_init env setting index s = (Inr d, s') \<longrightarrow>
            json_object_object_get_ex tmp ''trace_data_path'' \<noteq> None
            \<and> json_object_object_get_ex tmp ''cgroup_id'' \<noteq> None
            \<and> trace_data_path d =
                snd (docker_info_str_value_set env tmp ''trace_data_path''
                       (trace_data_path info) (sizeof_trace_data_path env) DOCKER_ERROR_PRINT)
            \<and> cgroup_id d =
                snd (docker_info_str_value_set env tmp ''cgroup_id'' []
                       (sizeof_cgroup_id env) DOCKER_ERROR_PRINT))"
  using assms(5,6) global_success_fields(1) [OF assms(1)]
  by (auto simp: docker_info_init_after_global [OF assms(1)] checks_located [OF assms(2,3,4)]
      not_less [symmetric] split: if_splits)

theorem task_keys_always_mandatory_witness:
  "docker_info_init_global sample_env
     (sample_setting ''none'' [(''trace_data_path'', JString ''seq_read'')]
        [JObject [(''cgroup_id'', JString ''t0'')]]) empty_state
   = (Inr (sample_global_info ''none'' 0 ''seq_read''), \<lparr> htab = {}, heap_blocks = 1 \<rparr>)
   \<and> json_object_object_get_ex (JObject [(''cgroup_id'', JString ''t0'')]) ''trace_data_path'' = None
   \<and> docker_info_init sample_env
     (sample_setting ''none'' [(''trace_data_path'', JString ''seq_read'')]
        [JObject [(''cgroup_id'', JString ''t0'')]])
     0 empty_state
   = (Inl (Not_exist [''trace_data_path'']), empty_state)"
proof -
  let ?task = "JObject [(''cgroup_id'', JString ''t0'')]"
  let ?setting = "sample_setting ''none'' [(''trace_data_path'', JString ''seq_read'')] [?task]"
  have g: "docker_info_init_global sample_env ?setting empty_state
     = (Inr (sample_global_info ''none'' 0 ''seq_read''), \<lparr> htab = {}, heap_blocks = 1 \<rparr>)"
    by (simp add: sample_defs model_defs Let_def)
  have a: "json_object_object_get_ex ?setting ''task_option'' = Some (JArray [?task])"
    by (simp add: sample_defs)
  have j: "json_is_array (JArray [?task])" by simp
  have i: "json_object_array_get_idx (JArray [?task]) 0 = Some ?task"
    by simp
  have v: "0 \<le> docker_valid_scheduler_test sample_env
        (scheduler (task_overrides sample_env ?task (sample_global_info ''none'' 0 ''seq_read'')))"
    by (simp add: sample_defs model_defs Let_def)
  have w: "docker_has_weight_scheduler sample_env (docker_valid_scheduler_test sample_env
        (scheduler (task_overrides sample_env ?task (sample_global_info ''none'' 0 ''seq_read''))))
      \<longrightarrow> json_object_object_get_ex ?task ''weight'' \<noteq> None"
    by (simp add: sample_defs model_defs Let_def)
  have k: "json_object_object_get_ex ?task ''trace_data_path'' = None"
    by simp
  from task_keys_always_mandatory [OF g a j i v w] g k
  show ?thesis by simp
qed

text \<open>
  The claim as first stated fails: a global \<^verbatim>\<open>trace_data_path\<close> is not inherited by
  a task entry without the key, and neither is a global \<^verbatim>\<open>cgroup_id\<close>.
\<close>

theorem task_keys_inherited_counterexample:
  "docker_info_init sample_env
     (sample_setting ''none'' [(''trace_data_path'', JString ''seq_read'')]
        [JObject [(''cgroup_id'', JString ''t0'')]])
     0 empty_state
   = (Inl (Not_exist [''trace_data_path'']), empty_state)
   \<and> docker_info_init sample_env
     (sample_setting ''none'' [(''cgroup_id'', JString ''t0'')]
        [JObject [(''trace_data_path'', JString ''seq_read'')]])
     0 empty_state
   = (Inl (Not_exist [''cgroup_id'']), empty_state)"
  by (simp add: sample_defs model_defs Let_def)

text \<open>
  C8. When the global object lacks one of the seven mandatory keys, \<^verbatim>\<open>docker_info_init\<close>
  returns no descriptor; when the descriptor could be allocated, it fails with "Not
  exist" for the mandatory keys that are missing, the given one among them, and the
  state is as before.
\<close>

theorem missing_mandatory_global_field:
  assumes "k \<in> {''time'', ''q_depth'', ''nr_thread'', ''prefix_cgroup_name'', ''scheduler'',
                 ''device'', ''trace_replay_path''}"
    and "json_object_object_get_ex setting k = None"
  shows "(\<forall>d s'. docker_info_init env setting index s \<noteq> (Inr d, s')) \<and>
         (malloc_info env \<longrightarrow>
            docker_info_init env setting index s =
              (Inl (Not_exist (filter (\<lambda>k. json_object_object_get_ex setting k = None)
                                 mandatory_keys)), s)
            \<and> k \<in> set (filter (\<lambda>k. json_object_object_get_ex setting k = None) mandatory_keys))"
proof -
  from assms(1) have k: "k \<in> set mandatory_keys" by (simp add: mandatory_keys_def)
  have a: "\<forall>d s'. docker_info_init env setting index s \<noteq> (Inr d, s')"
    using global_mandatory_missing_any [OF k assms(2)]
    by (auto simp: docker_info_init_def split: prod.splits sum.splits)
  have b: "malloc_info env \<Longrightarrow> docker_info_init env setting index s =
              (Inl (Not_exist (filter (\<lambda>k. json_object_object_get_ex setting k = None)
                                 mandatory_keys)), s)"
    using global_mandatory_missing [OF k assms(2)]
    by (simp add: docker_info_init_def)
  from a b k assms(2) show ?thesis by simp
qed

theorem missing_mandatory_global_field_witness:
  "''device'' \<in> {''time'', ''q_depth'', ''nr_thread'', ''prefix_cgroup_name'', ''scheduler'',
                 ''device'', ''trace_replay_path''}
   \<and> json_object_object_get_ex
        (JObject [(''time'', JInt 60), (''q_depth'', JInt 32), (''nr_thread'', JInt 4),
                  (''prefix_cgroup_name'', JString ''bench_''),
                  (''trace_replay_path'', JString ''trace-replay''),
                  (''task_option'', JArray [sample_task ''t0'' ''seq_read'' []])]) ''device'' = None
   \<and> docker_info_init sample_env
        (JObject [(''time'', JInt 60), (''q_depth'', JInt 32), (''nr_thread'', JInt 4),
                  (''prefix_cgroup_name'', JString ''bench_''),
                  (''trace_replay_path'', JString ''trace-replay''),
                  (''task_option'', JArray [sample_task ''t0'' ''seq_read'' []])]) 0 empty_state
       = (Inl (Not_exist [''scheduler'', ''device'']), empty_state)"
  using missing_mandatory_global_field [of "''device''"
        "JObject [(''time'', JInt 60), (''q_depth'', JInt 32), (''nr_thread'', JInt 4),
                  (''prefix_cgroup_name'', JString ''bench_''),
                  (''trace_replay_path'', JString ''trace-replay''),
                  (''task_option'', JArray [sample_task ''t0'' ''seq_read'' []])]"
        sample_env 0 empty_state]
  by (simp add: mandatory_keys_def sample_env_def)

text \<open>
  C9. Every descriptor that \<^verbatim>\<open>docker_info_init\<close> returns has its three
  synchronization handles \<^verbatim>\<open>mqid\<close>, \<^verbatim>\<open>semid\<close> and \<^verbatim>\<open>shmid\<close> at the sentinel -1 and
  its chain link \<^verbatim>\<open>next\<close> empty. (The function calls nothing that allocates a handle.)
\<close>

theorem sync_handles_unallocated:
  "docker_info_init env setting index s = (Inr d, s') \<Longrightarrow>
     mqid d = - 1 \<and> sint (mqid d) = - 1 \<and> semid d = - 1 \<and> sint (semid d) = - 1 \<and>
     shmid d = - 1 \<and> sint (shmid d) = - 1 \<and> next_ptr d = None"
  by (auto simp: docker_info_init_def split: prod.splits sum.splits)

theorem sync_handles_unallocated_witness:
  "docker_info_init sample_env
     (sample_setting ''none'' [] [sample_task ''t0'' ''seq_read'' []]) 0 empty_state
   = (Inr (sample_descriptor ''none'' 0), \<lparr> htab = {''t0''}, heap_blocks = 1 \<rparr>)
   \<and> mqid (sample_descriptor ''none'' 0) = - 1
   \<and> semid (sample_descriptor ''none'' 0) = - 1
   \<and> shmid (sample_descriptor ''none'' 0) = - 1
   \<and> next_ptr (sample_descriptor ''none'' 0) = None"
  using sync_handles_unallocated [OF scenario_run] scenario_run by simp

text \<open>
  C10. The table is changed exactly by a call that returns a descriptor. A call that
  ends without a descriptor leaves the table as it was, and when it returns \<^verbatim>\<open>NULL\<close>
  the whole state is as before: the descriptor under construction has been freed. A
  call that returns a descriptor has entered that descriptor's \<^verbatim>\<open>cgroup_id\<close>, which
  was not in the table before, and nothing else; the descriptor is the one heap block
  it leaves allocated.
\<close>

theorem registry_entered_iff_success:
  "(docker_info_init env setting index s = (Inl e, s') \<longrightarrow>
      htab s' = htab s \<and> (e \<noteq> Assertion_failure \<and> e \<noteq> Undefined \<longrightarrow> s' = s)) \<and>
   (docker_info_init env setting index s = (Inr d, s') \<longrightarrow>
      cgroup_id d \<notin> htab s \<and> htab s' = insert (cgroup_id d) (htab s) \<and>
      heap_blocks s' = heap_blocks s + 1)"
  apply (auto simp: docker_info_init_def free_malloc split: prod.splits sum.splits
      dest!: global_fail_state global_success_state uu_fail_state uu_success)
  apply (auto simp: malloc_block_def)
  done

theorem registry_entered_iff_success_witness:
  "docker_info_init sample_env
     (sample_setting ''none'' [] [sample_task ''t0'' ''/tmp/missing.dat'' []]) 0 empty_state
   = (Inl (Trace_data_not_exist ''/tmp/missing.dat''), empty_state)
   \<and> docker_info_init sample_env
     (sample_setting ''none'' [] [sample_task ''t0'' ''seq_read'' []]) 0 empty_state
   = (Inr (sample_descriptor ''none'' 0), \<lparr> htab = {''t0''}, heap_blocks = 1 \<rparr>)
   \<and> cgroup_id (sample_descriptor ''none'' 0) \<notin> htab empty_state
   \<and> htab \<lparr> htab = {''t0''}, heap_blocks = 1 \<rparr>
       = insert (cgroup_id (sample_descriptor ''none'' 0)) (htab empty_state)"
  using registry_entered_iff_success [where env = sample_env
      and setting = "sample_setting ''none'' [] [sample_task ''t0'' ''/tmp/missing.dat'' []]"
      and index = 0 and s = empty_state
      and e = "Trace_data_not_exist ''/tmp/missing.dat''" and s' = empty_state]
    registry_entered_iff_success [where env = sample_env
      and setting = "sample_setting ''none'' [] [sample_task ''t0'' ''seq_read'' []]"
      and index = 0 and s = empty_state
      and d = "sample_descriptor ''none'' 0" and s' = "\<lparr> htab = {''t0''}, heap_blocks = 1 \<rparr>"]
    failed_task_run scenario_run
  by (simp add: sample_descriptor_def empty_state_def)

end
